theory Spec2Isabelle
  imports Main
begin

section \<open>Strings\<close>

text \<open>
  Go strings are byte sequences; they are modelled as \<open>string\<close> (a list of bytes).
  The helpers below are the calls of Go's \<open>strings\<close> package that the rule engine
  makes.
\<close>

text \<open>
  \<open>strings.TrimSpace\<close> removes the leading and the trailing white space runes, as
  \<open>unicode.IsSpace\<close> defines them: U+0009 to U+000D, U+0020, U+0085, U+00A0, U+1680,
  U+2000 to U+200A, U+2028, U+2029, U+202F, U+205F and U+3000. \<open>spaceEncodings\<close>
  lists their UTF-8 encodings. A rune is decoded from its first byte on (and, at the end
  of the string, from the last byte that starts a rune), an invalid byte decodes to
  U+FFFD, which is no white space, and no encoding in the list is the beginning of
  another: so trimming is removing, as long as there is one, an encoding of the list
  from the front, and then from the back.
\<close>

definition spaceEncodings :: "string list" where
  "spaceEncodings =
     [[CHR 0x09], [CHR 0x0A], [CHR 0x0B], [CHR 0x0C], [CHR 0x0D], [CHR 0x20],
      [CHR 0xC2, CHR 0x85], [CHR 0xC2, CHR 0xA0],
      [CHR 0xE1, CHR 0x9A, CHR 0x80],
      [CHR 0xE2, CHR 0x80, CHR 0x80], [CHR 0xE2, CHR 0x80, CHR 0x81],
      [CHR 0xE2, CHR 0x80, CHR 0x82], [CHR 0xE2, CHR 0x80, CHR 0x83],
      [CHR 0xE2, CHR 0x80, CHR 0x84], [CHR 0xE2, CHR 0x80, CHR 0x85],
      [CHR 0xE2, CHR 0x80, CHR 0x86], [CHR 0xE2, CHR 0x80, CHR 0x87],
      [CHR 0xE2, CHR 0x80, CHR 0x88], [CHR 0xE2, CHR 0x80, CHR 0x89],
      [CHR 0xE2, CHR 0x80, CHR 0x8A],
      [CHR 0xE2, CHR 0x80, CHR 0xA8], [CHR 0xE2, CHR 0x80, CHR 0xA9],
      [CHR 0xE2, CHR 0x80, CHR 0xAF],
      [CHR 0xE2, CHR 0x81, CHR 0x9F],
      [CHR 0xE3, CHR 0x80, CHR 0x80]]"

definition startsWith :: "string \<Rightarrow> string \<Rightarrow> bool" where
  "startsWith s enc = (enc \<noteq> [] \<and> take (length enc) s = enc)"

function trimPrefixes :: "string list \<Rightarrow> string \<Rightarrow> string" where
  "trimPrefixes encs s =
     (case find (startsWith s) encs of
        None \<Rightarrow> s
      | Some enc \<Rightarrow> trimPrefixes encs (drop (length enc) s))"
  by pat_completeness auto
termination
proof (relation "measure (\<lambda>(encs, s). length s)")
  show "wf (measure (\<lambda>(encs, s). length s))" by simp
next
  fix encs s enc
  assume "find (startsWith s) encs = Some enc"
  then have "startsWith s enc" by (auto simp: find_Some_iff)
  then have "enc \<noteq> []" and "take (length enc) s = enc" by (simp_all add: startsWith_def)
  then have "s \<noteq> []" by auto
  with \<open>enc \<noteq> []\<close>
  show "((encs, drop (length enc) s), (encs, s)) \<in> measure (\<lambda>(encs, s). length s)"
    by simp
qed

declare trimPrefixes.simps [simp del]

definition TrimSpace :: "string \<Rightarrow> string" where
  "TrimSpace s =
     rev (trimPrefixes (map rev spaceEncodings) (rev (trimPrefixes spaceEncodings s)))"

text \<open>
  \<open>strings.ToLower\<close> maps \<open>A..Z\<close> to \<open>a..z\<close> in a string of ASCII bytes. For a
  string with a byte outside ASCII it maps every rune by the case tables of Go's
  \<open>unicode\<close> package; that function on strings is not part of the repository and is
  the parameter \<open>unicodeLower\<close>.
\<close>

definition isASCII :: "char \<Rightarrow> bool" where
  "isASCII c = (\<not> digit7 c)"

definition toLowerChar :: "char \<Rightarrow> char" where
  "toLowerChar c =
     (case map_of (zip ''ABCDEFGHIJKLMNOPQRSTUVWXYZ'' ''abcdefghijklmnopqrstuvwxyz'') c of
        None \<Rightarrow> c
      | Some l \<Rightarrow> l)"

definition ToLower :: "(string \<Rightarrow> string) \<Rightarrow> string \<Rightarrow> string" where
  "ToLower unicodeLower s =
     (if list_all isASCII s then map toLowerChar s else unicodeLower s)"

text \<open>\<open>strings.Split(s, sep)\<close> for a one-byte separator: every separator ends a field,
  so the empty string gives one empty field.\<close>

fun Split :: "string \<Rightarrow> char \<Rightarrow> string list" where
  "Split [] sep = [[]]"
| "Split (c # cs) sep =
     (if c = sep then [] # Split cs sep
      else (case Split cs sep of
              [] \<Rightarrow> [[c]]
            | f # fs \<Rightarrow> (c # f) # fs))"

text \<open>\<open>strings.SplitN(s, sep, 2)\<close> for a one-byte separator: one field when the
  separator does not occur, otherwise the text before its first occurrence and all the
  text after it.\<close>

definition SplitN2 :: "string \<Rightarrow> char \<Rightarrow> string list" where
  "SplitN2 s sep =
     (if sep \<in> set s
      then [takeWhile (\<lambda>c. c \<noteq> sep) s, tl (dropWhile (\<lambda>c. c \<noteq> sep) s)]
      else [s])"

section \<open>Errors\<close>

text \<open>The errors the engine builds with \<open>fmt.Errorf\<close>, one constructor per
  message, and \<open>External\<close> for an error that a collaborator (the expression evaluator,
  the template library, a legacy sub-rule, a decoder) hands back.\<close>

datatype error =
    InvalidFeature string
  | UnknownDomain string
  | FeatureNotAvailable string string
  | FailedLegacyRule string error
  | FailedRule string error
  | EmptyRuleBug
  | InvalidTemplate error
  | External string

section \<open>Feature domain model\<close>

text \<open>
  \<open>feature.DomainFeatures\<close> has the three maps \<open>Keys\<close>, \<open>Values\<close> and
  \<open>Instances\<close>; each feature set is a struct whose only field is \<open>Elements\<close>, which
  is what the synonyms below stand for. The snapshot \<open>map[string]*DomainFeatures\<close> is
  a map to (non-nil) domain records.
\<close>

type_synonym KeyFeatureSet = "string \<rightharpoonup> unit"
type_synonym ValueFeatureSet = "string \<rightharpoonup> string"
type_synonym InstanceFeature = "string \<rightharpoonup> string"
type_synonym InstanceFeatureSet = "InstanceFeature list"

record DomainFeatures =
  Keys :: "string \<rightharpoonup> KeyFeatureSet"
  Values :: "string \<rightharpoonup> ValueFeatureSet"
  Instances :: "string \<rightharpoonup> InstanceFeatureSet"

type_synonym Features = "string \<rightharpoonup> DomainFeatures"

text \<open>What a term matched: the value stored as \<open>interface{}\<close> under
  \<open>ret[domain][featureName]\<close> is the slice one of the three evaluator calls returned.\<close>

type_synonym MatchedKey = string
type_synonym MatchedValue = "string \<times> string"
type_synonym MatchedInstance = "string \<rightharpoonup> string"

datatype matched =
    MatchedKeys "MatchedKey list"
  | MatchedValues "MatchedValue list"
  | MatchedInstances "MatchedInstance list"

type_synonym domainMatchedFeatures = "string \<rightharpoonup> matched"
type_synonym matchedFeatures = "string \<rightharpoonup> domainMatchedFeatures"

text \<open>
  What the matcher uses from outside the repository's files is taken as a parameter,
  the record \<open>Evaluator\<close>: the three methods \<open>MatchGetKeys\<close>, \<open>MatchGetValues\<close>
  and \<open>MatchGetInstances\<close> of the match expression evaluator
  (\<open>MatchExpressionSet\<close>; \<open>'e\<close> is the type of expression sets), each returning the
  matched elements and an error (or none), and \<open>nameToLower\<close>, which is what
  \<open>strings.ToLower\<close> does with a feature name that is not ASCII.
\<close>

record 'e Evaluator =
  MatchGetKeys :: "'e \<Rightarrow> KeyFeatureSet \<Rightarrow> MatchedKey list \<times> error option"
  MatchGetValues :: "'e \<Rightarrow> ValueFeatureSet \<Rightarrow> MatchedValue list \<times> error option"
  MatchGetInstances :: "'e \<Rightarrow> InstanceFeatureSet \<Rightarrow> MatchedInstance list \<times> error option"
  nameToLower :: "string \<Rightarrow> string"

record 'e FeatureMatcherTerm =
  Feature :: string
  MatchExpressions :: 'e

type_synonym 'e FeatureMatcher = "'e FeatureMatcherTerm list"

section \<open>FeatureMatcher.match\<close>

text \<open>
  The loop of \<open>FeatureMatcher.match\<close> over the terms, with the accumulated \<open>ret\<close>.
  The result is the pair the Go function returns: the matched features (\<open>None\<close> is
  \<open>nil\<close>) and the error (\<open>None\<close> is \<open>nil\<close>). \<open>storeMatched\<close> is the pair of
  statements \<open>if _, ok := ret[domain]; !ok { ret[domain] = make(...) }\<close> and
  \<open>ret[domain][featureName] = v\<close>.
\<close>

definition storeMatched :: "matchedFeatures \<Rightarrow> string \<Rightarrow> string \<Rightarrow> matched \<Rightarrow> matchedFeatures" where
  "storeMatched ret domain featureName v =
     (let d = (case ret domain of None \<Rightarrow> Map.empty | Some d \<Rightarrow> d)
      in ret(domain \<mapsto> d(featureName \<mapsto> v)))"

fun matchTerms ::
  "'e Evaluator \<Rightarrow> Features \<Rightarrow> 'e FeatureMatcherTerm list \<Rightarrow> matchedFeatures
     \<Rightarrow> matchedFeatures option \<times> error option" where
  "matchTerms ev features [] ret = (Some ret, None)"
| "matchTerms ev features (term # terms) ret =
     (let split = SplitN2 (Feature term) (CHR ''.'') in
      if length split \<noteq> 2 then (None, Some (InvalidFeature (Feature term)))
      else
        let domain = split ! 0; featureName = ToLower (nameToLower ev) (split ! 1) in
        (case features domain of
           None \<Rightarrow> (None, Some (UnknownDomain domain))
         | Some domainFeatures \<Rightarrow>
             (case Keys domainFeatures featureName of
                Some f \<Rightarrow>
                  (let (v, err) = MatchGetKeys ev (MatchExpressions term) f;
                       m = (length v > 0); e = err;
                       ret' = storeMatched ret domain featureName (MatchedKeys v)
                   in if e \<noteq> None then (None, e)
                      else if \<not> m then (None, None)
                      else matchTerms ev features terms ret')
              | None \<Rightarrow>
                  (case Values domainFeatures featureName of
                     Some f \<Rightarrow>
                       (let (v, err) = MatchGetValues ev (MatchExpressions term) f;
                            m = (length v > 0); e = err;
                            ret' = storeMatched ret domain featureName (MatchedValues v)
                        in if e \<noteq> None then (None, e)
                           else if \<not> m then (None, None)
                           else matchTerms ev features terms ret')
                   | None \<Rightarrow>
                       (case Instances domainFeatures featureName of
                          Some f \<Rightarrow>
                            (let (v, err) = MatchGetInstances ev (MatchExpressions term) f;
                                 m = (length v > 0); e = err;
                                 ret' = storeMatched ret domain featureName (MatchedInstances v)
                             in if e \<noteq> None then (None, e)
                                else if \<not> m then (None, None)
                                else matchTerms ev features terms ret')
                        | None \<Rightarrow>
                            (None, Some (FeatureNotAvailable featureName domain)))))))"

definition match ::
  "'e Evaluator \<Rightarrow> 'e FeatureMatcher \<Rightarrow> Features \<Rightarrow> matchedFeatures option \<times> error option" where
  "match ev m features = matchTerms ev features m Map.empty"

section \<open>The custom source: modern rules\<close>

type_synonym labels = "string \<rightharpoonup> string"

text \<open>A compiled template (\<open>*template.Template\<close>) is what its \<open>Execute\<close> does with
  the matched features: it fails, or it writes a text.\<close>

type_synonym template = "matchedFeatures \<Rightarrow> error + string"

record 'e MatchAnyElem =
  MatchFeatures :: "'e FeatureMatcher"

text \<open>The \<open>Rule\<close> struct. \<open>labelsTemplate\<close> is the private compiled template
  (\<open>None\<close> is \<open>nil\<close>); a nil \<open>Labels\<close> map is the empty map.\<close>

record 'e Rule =
  Name :: string
  Labels :: labels
  LabelsTemplate :: string
  MatchFeatures :: "'e FeatureMatcher"
  MatchAny :: "'e MatchAnyElem list"
  labelsTemplate :: "template option"

definition MatchAnyElem_match ::
  "'e Evaluator \<Rightarrow> 'e MatchAnyElem \<Rightarrow> Features \<Rightarrow> matchedFeatures option \<times> error option" where
  "MatchAnyElem_match ev e features = match ev (MatchAnyElem.MatchFeatures e) features"

text \<open>The loop of \<open>Rule.executeLabelsTemplate\<close> over the lines of the expanded
  template, writing into \<open>out\<close>.\<close>

fun splitLabels :: "string list \<Rightarrow> labels \<Rightarrow> labels" where
  "splitLabels [] out = out"
| "splitLabels (item # items) out =
     (let trimmed = TrimSpace item in
      if trimmed \<noteq> [] then
        (let split = SplitN2 trimmed (CHR ''='') in
         if length split = 1 then splitLabels items (out(split ! 0 \<mapsto> ''true''))
         else splitLabels items (out(split ! 0 \<mapsto> split ! 1)))
      else splitLabels items out)"

text \<open>\<open>Rule.executeLabelsTemplate\<close> of the custom source: the map \<open>out\<close> is updated
  in place, so the model returns it with the error.\<close>

definition executeLabelsTemplate ::
  "'e Rule \<Rightarrow> matchedFeatures \<Rightarrow> labels \<Rightarrow> labels \<times> error option" where
  "executeLabelsTemplate r inp out =
     (case labelsTemplate r of
        None \<Rightarrow> (out, None)
      | Some tmpl \<Rightarrow>
          (case tmpl inp of
             Inl err \<Rightarrow> (out, Some err)
           | Inr expanded \<Rightarrow> (splitLabels (Split expanded (CHR 0x0A)) out, None)))"

text \<open>The loop over \<open>r.MatchAny\<close> in \<open>Rule.execute\<close>: \<open>Inl err\<close> is the
  \<open>return nil, err\<close> inside the loop, \<open>Inr (matched, ret)\<close> the state when the loop
  is left (at its end or by \<open>break\<close>).\<close>

fun matchAnyLoop ::
  "'e Evaluator \<Rightarrow> 'e Rule \<Rightarrow> Features \<Rightarrow> 'e MatchAnyElem list \<Rightarrow> bool \<Rightarrow> labels
     \<Rightarrow> error + (bool \<times> labels)" where
  "matchAnyLoop ev r features [] matched ret = Inr (matched, ret)"
| "matchAnyLoop ev r features (matcher # rest) matched ret =
     (case MatchAnyElem_match ev matcher features of
        (_, Some err) \<Rightarrow> Inl err
      | (Some m, None) \<Rightarrow>
          (if labelsTemplate r = None then Inr (True, ret)
           else (case executeLabelsTemplate r m ret of
                   (_, Some err) \<Rightarrow> Inl err
                 | (ret', None) \<Rightarrow> matchAnyLoop ev r features rest True ret'))
      | (None, None) \<Rightarrow> matchAnyLoop ev r features rest matched ret)"

text \<open>\<open>Rule.execute\<close>: the labels (\<open>None\<close> is the nil map) and the error. In
  the two inner results \<open>Inl\<close> is a \<open>return\<close> of the Go function and \<open>Inr ret\<close>
  goes on with the map \<open>ret\<close>; the last line is the merge of the static labels.\<close>

definition execute ::
  "'e Evaluator \<Rightarrow> 'e Rule \<Rightarrow> Features \<Rightarrow> labels option \<times> error option" where
  "execute ev r features =
     (let ret = Map.empty in
      case (if length (MatchAny r) > 0 then
              (case matchAnyLoop ev r features (MatchAny r) False ret of
                 Inl err \<Rightarrow> Inl (None, Some err)
               | Inr (matched, ret') \<Rightarrow>
                   if \<not> matched then Inl (None, None) else Inr ret')
            else Inr ret) of
        Inl result \<Rightarrow> result
      | Inr ret \<Rightarrow>
          (case (if length (Rule.MatchFeatures r) > 0 then
                   (case match ev (Rule.MatchFeatures r) features of
                      (_, Some err) \<Rightarrow> Inl (None, Some err)
                    | (None, None) \<Rightarrow> Inl (None, None)
                    | (Some m, None) \<Rightarrow>
                        (case executeLabelsTemplate r m ret of
                           (_, Some err) \<Rightarrow> Inl (None, Some err)
                         | (ret', None) \<Rightarrow> Inr ret'))
                 else Inr ret) of
             Inl result \<Rightarrow> result
           | Inr ret \<Rightarrow> (Some (ret ++ Labels r), None)))"

section \<open>The custom source: legacy rules\<close>

text \<open>
  A legacy sub-rule is a value of the interface \<open>legacyRule\<close>, whose only method is
  \<open>Match() (bool, error)\<close>; the sub-rules read their features from the feature sources
  themselves. \<open>'l\<close> is the type of sub-rules and the method is the parameter \<open>Match\<close>.
  A slot of \<open>LegacyMatcher\<close> is a pointer: \<open>None\<close> is nil.
\<close>

record 'l LegacyMatcher =
  PciID :: "'l option"
  UsbID :: "'l option"
  LoadedKMod :: "'l option"
  CpuID :: "'l option"
  Kconfig :: "'l option"
  Nodename :: "'l option"

record 'l LegacyRule =
  Name :: string
  Value :: "string option"
  MatchOn :: "'l LegacyMatcher list"

fun matchRules :: "('l \<Rightarrow> bool \<times> error option) \<Rightarrow> 'l option list \<Rightarrow> bool \<times> error option" where
  "matchRules Match [] = (True, None)"
| "matchRules Match (rule # rules) =
     (case rule of
        None \<Rightarrow> matchRules Match rules
      | Some rl \<Rightarrow>
          (case Match rl of
             (_, Some err) \<Rightarrow> (False, Some err)
           | (False, None) \<Rightarrow> (False, None)
           | (True, None) \<Rightarrow> matchRules Match rules))"

definition LegacyMatcher_match ::
  "('l \<Rightarrow> bool \<times> error option) \<Rightarrow> 'l LegacyMatcher \<Rightarrow> bool \<times> error option" where
  "LegacyMatcher_match Match m =
     (let allRules = [PciID m, UsbID m, LoadedKMod m, CpuID m, Kconfig m, Nodename m]
      in matchRules Match allRules)"

text \<open>The loop over \<open>r.MatchOn\<close> in \<open>LegacyRule.execute\<close>: \<open>Inl err\<close> is the
  \<open>return nil, err\<close>, \<open>Inr matched\<close> the flag when the loop is left.\<close>

fun matchOnLoop ::
  "('l \<Rightarrow> bool \<times> error option) \<Rightarrow> 'l LegacyMatcher list \<Rightarrow> bool \<Rightarrow> error + bool" where
  "matchOnLoop Match [] matched = Inr matched"
| "matchOnLoop Match (matcher # rest) matched =
     (case LegacyMatcher_match Match matcher of
        (_, Some err) \<Rightarrow> Inl err
      | (True, None) \<Rightarrow> Inr True
      | (False, None) \<Rightarrow> matchOnLoop Match rest matched)"

definition legacyLabel :: "'l LegacyRule \<Rightarrow> labels" where
  "legacyLabel r =
     (let value = (case Value r of None \<Rightarrow> ''true'' | Some v \<Rightarrow> v)
      in [LegacyRule.Name r \<mapsto> value])"

definition LegacyRule_execute ::
  "('l \<Rightarrow> bool \<times> error option) \<Rightarrow> 'l LegacyRule \<Rightarrow> Features \<Rightarrow> labels option \<times> error option" where
  "LegacyRule_execute Match r features =
     (if length (MatchOn r) > 0 then
        (case matchOnLoop Match (MatchOn r) False of
           Inl err \<Rightarrow> (None, Some err)
         | Inr matched \<Rightarrow>
             if \<not> matched then (None, None) else (Some (legacyLabel r), None))
      else (Some (legacyLabel r), None))"

section \<open>The custom source: the rule wrapper and the label loop\<close>

record ('l, 'e) CustomRule =
  LegacyRule :: "'l LegacyRule option"
  Rule :: "'e Rule option"

definition CustomRule_execute ::
  "('l \<Rightarrow> bool \<times> error option) \<Rightarrow> 'e Evaluator \<Rightarrow> ('l, 'e) CustomRule \<Rightarrow> Features
     \<Rightarrow> labels option \<times> error option" where
  "CustomRule_execute Match ev r features =
     (case LegacyRule r of
        Some lr \<Rightarrow>
          (case LegacyRule_execute Match lr features of
             (_, Some err) \<Rightarrow> (None, Some (FailedLegacyRule (LegacyRule.Name lr) err))
           | (ruleOut, None) \<Rightarrow> (ruleOut, None))
      | None \<Rightarrow>
          (case Rule r of
             Some mr \<Rightarrow>
               (case execute ev mr features of
                  (_, Some err) \<Rightarrow> (None, Some (FailedRule (Rule.Name mr) err))
                | (ruleOut, None) \<Rightarrow> (ruleOut, None))
           | None \<Rightarrow> (None, Some EmptyRuleBug)))"

text \<open>
  The loop of \<open>customSource.GetLabels\<close> over the rules. \<open>labels\<close> is the map being
  filled; \<open>logged\<close> collects, in order, the errors handed to \<open>klog.Error\<close>.
  Ranging over a nil \<open>ruleOut\<close> adds nothing.
\<close>

fun getLabelsLoop ::
  "('l \<Rightarrow> bool \<times> error option) \<Rightarrow> 'e Evaluator \<Rightarrow> Features \<Rightarrow> ('l, 'e) CustomRule list
     \<Rightarrow> labels \<Rightarrow> error list \<Rightarrow> labels \<times> error list" where
  "getLabelsLoop Match ev domainFeatures [] labels logged = (labels, logged)"
| "getLabelsLoop Match ev domainFeatures (rule # rules) labels logged =
     (case CustomRule_execute Match ev rule domainFeatures of
        (_, Some err) \<Rightarrow> getLabelsLoop Match ev domainFeatures rules labels (logged @ [err])
      | (ruleOut, None) \<Rightarrow>
          getLabelsLoop Match ev domainFeatures rules
            (labels ++ (case ruleOut of None \<Rightarrow> Map.empty | Some out \<Rightarrow> out)) logged)"

text \<open>
  \<open>customSource.GetLabels\<close>. The feature snapshot (what the registered feature
  sources return), the static rules (\<open>getStaticFeatureConfig\<close>) and the rules read from
  the directory (\<open>getDirectoryFeatureConfig\<close>) come from collaborators and are
  parameters; \<open>config\<close> is \<open>s.config\<close>. The result is the labels, the error the
  function returns, and the logged errors.
\<close>

definition GetLabels ::
  "('l \<Rightarrow> bool \<times> error option) \<Rightarrow> 'e Evaluator \<Rightarrow> Features
     \<Rightarrow> ('l, 'e) CustomRule list \<Rightarrow> ('l, 'e) CustomRule list \<Rightarrow> ('l, 'e) CustomRule list
     \<Rightarrow> labels \<times> error option \<times> error list" where
  "GetLabels Match ev domainFeatures staticConfig config directoryConfig =
     (let labels = Map.empty;
          allFeatureConfig = staticConfig @ config;
          allFeatureConfig = allFeatureConfig @ directoryConfig;
          (labels, logged) = getLabelsLoop Match ev domainFeatures allFeatureConfig labels []
      in (labels, None, logged))"

section \<open>The custom source: decoding and encoding a rule\<close>

text \<open>
  The YAML and JSON libraries are collaborators. \<open>rawParse\<close> is the raw parse into
  \<open>map[string]json.RawMessage\<close>, given as the list of its entries; \<open>decodeLegacy\<close>
  and \<open>decodeRule\<close> are \<open>yaml.Unmarshal\<close> into \<open>&c.LegacyRule\<close> and \<open>&c.Rule\<close>,
  giving the pointer they leave there and their error; \<open>keyToLower\<close> is what
  \<open>strings.ToLower\<close> does with a key that is not ASCII.
\<close>

record ('l, 'e) Decoders =
  rawParse :: "string \<Rightarrow> error + (string \<times> string) list"
  decodeLegacy :: "string \<Rightarrow> 'l LegacyRule option \<times> error option"
  decodeRule :: "string \<Rightarrow> 'e Rule option \<times> error option"
  keyToLower :: "string \<Rightarrow> string"

text \<open>The loop \<open>for k := range raw\<close>: is some key \<open>matchon\<close> in lower case?\<close>

fun hasMatchOn :: "(string \<Rightarrow> string) \<Rightarrow> (string \<times> string) list \<Rightarrow> bool" where
  "hasMatchOn lower [] = False"
| "hasMatchOn lower ((k, v) # raw) =
     (if ToLower lower k = ''matchon'' then True else hasMatchOn lower raw)"

definition UnmarshalJSON ::
  "('l, 'e) Decoders \<Rightarrow> ('l, 'e) CustomRule \<Rightarrow> string \<Rightarrow> ('l, 'e) CustomRule \<times> error option" where
  "UnmarshalJSON dec c data =
     (case rawParse dec data of
        Inl err \<Rightarrow> (c, Some err)
      | Inr raw \<Rightarrow>
          if hasMatchOn (keyToLower dec) raw then
            (let (p, err) = decodeLegacy dec data in (c\<lparr>LegacyRule := p\<rparr>, err))
          else
            (let (p, err) = decodeRule dec data in (c\<lparr>Rule := p\<rparr>, err)))"

text \<open>\<open>json.Marshal\<close> of a pointer: a nil pointer is encoded as \<open>null\<close> without an
  error, any other by the encoder of the value it points to (a parameter).\<close>

definition jsonMarshalPtr :: "('a \<Rightarrow> string \<times> error option) \<Rightarrow> 'a option \<Rightarrow> string \<times> error option" where
  "jsonMarshalPtr enc p = (case p of None \<Rightarrow> (''null'', None) | Some v \<Rightarrow> enc v)"

definition MarshalJSON ::
  "('l LegacyRule \<Rightarrow> string \<times> error option) \<Rightarrow> ('e Rule \<Rightarrow> string \<times> error option)
     \<Rightarrow> ('l, 'e) CustomRule \<Rightarrow> string \<times> error option" where
  "MarshalJSON encLegacy encRule c =
     (if LegacyRule c \<noteq> None then jsonMarshalPtr encLegacy (LegacyRule c)
      else jsonMarshalPtr encRule (Rule c))"

section \<open>The v1alpha1 package: rules with a lazily compiled template\<close>

text \<open>
  \<open>Rule.Execute\<close> of package \<open>v1alpha1\<close> works on the same fields of a rule as the
  custom source's \<open>Rule.execute\<close>, so the record \<open>Rule\<close> stands for both structs.
  Here \<open>labelsTemplate\<close> is a \<open>*templateHelper\<close>, which wraps the compiled template,
  and \<open>Rule.executeLabelsTemplate\<close> compiles it on first use and stores it in the rule:
  the functions return the rule as they leave it. Parsing a template text is the
  template library's work and is the parameter \<open>parse\<close>.
\<close>

definition newTemplateHelper :: "(string \<Rightarrow> error + template) \<Rightarrow> string \<Rightarrow> error + template" where
  "newTemplateHelper parse name =
     (case parse name of
        Inl err \<Rightarrow> Inl (InvalidTemplate err)
      | Inr tmpl \<Rightarrow> Inr tmpl)"

definition templateHelper_execute :: "template \<Rightarrow> matchedFeatures \<Rightarrow> string \<times> error option" where
  "templateHelper_execute h data =
     (case h data of
        Inl err \<Rightarrow> ([], Some err)
      | Inr s \<Rightarrow> (s, None))"

text \<open>The loop of \<open>templateHelper.expandMap\<close> over the lines.\<close>

fun expandMapLoop :: "string list \<Rightarrow> labels \<Rightarrow> labels" where
  "expandMapLoop [] out = out"
| "expandMapLoop (item # items) out =
     (let trimmed = TrimSpace item in
      if trimmed \<noteq> [] then
        (let split = SplitN2 trimmed (CHR ''='') in
         if length split = 1 then expandMapLoop items (out(split ! 0 \<mapsto> []))
         else expandMapLoop items (out(split ! 0 \<mapsto> split ! 1)))
      else expandMapLoop items out)"

definition expandMap :: "template \<Rightarrow> matchedFeatures \<Rightarrow> labels option \<times> error option" where
  "expandMap h data =
     (case templateHelper_execute h data of
        (_, Some err) \<Rightarrow> (None, Some err)
      | (expanded, None) \<Rightarrow>
          (let out = Map.empty in (Some (expandMapLoop (Split expanded (CHR 0x0A)) out), None)))"

text \<open>\<open>Rule.executeLabelsTemplate\<close> of \<open>v1alpha1\<close>: the rule as it is left, the map
  \<open>out\<close> as it is left, and the error.\<close>

definition v1alpha1_executeLabelsTemplate ::
  "(string \<Rightarrow> error + template) \<Rightarrow> 'e Rule \<Rightarrow> matchedFeatures \<Rightarrow> labels
     \<Rightarrow> 'e Rule \<times> labels \<times> error option" where
  "v1alpha1_executeLabelsTemplate parse r inp out =
     (if LabelsTemplate r = [] then (r, out, None)
      else
        (case (case labelsTemplate r of
                 None \<Rightarrow>
                   (case newTemplateHelper parse (LabelsTemplate r) of
                      Inl err \<Rightarrow> Inl err
                    | Inr t \<Rightarrow> Inr (r\<lparr>labelsTemplate := Some t\<rparr>, t))
               | Some t \<Rightarrow> Inr (r, t)) of
           Inl err \<Rightarrow> (r, out, Some err)
         | Inr (r', h) \<Rightarrow>
             (case expandMap h inp of
                (_, Some err) \<Rightarrow> (r', out, Some err)
              | (labels, None) \<Rightarrow>
                  (r', out ++ (case labels of None \<Rightarrow> Map.empty | Some l \<Rightarrow> l), None))))"

text \<open>The loop over \<open>r.MatchAny\<close> in \<open>Rule.Execute\<close>, with the rule as state.\<close>

fun v1alpha1_matchAnyLoop ::
  "(string \<Rightarrow> error + template) \<Rightarrow> 'e Evaluator \<Rightarrow> 'e Rule \<Rightarrow> Features \<Rightarrow> 'e MatchAnyElem list
     \<Rightarrow> bool \<Rightarrow> labels \<Rightarrow> 'e Rule \<times> (error + (bool \<times> labels))" where
  "v1alpha1_matchAnyLoop parse ev r features [] matched ret = (r, Inr (matched, ret))"
| "v1alpha1_matchAnyLoop parse ev r features (matcher # rest) matched ret =
     (case MatchAnyElem_match ev matcher features of
        (_, Some err) \<Rightarrow> (r, Inl err)
      | (Some m, None) \<Rightarrow>
          (if labelsTemplate r = None then (r, Inr (True, ret))
           else (case v1alpha1_executeLabelsTemplate parse r m ret of
                   (r', _, Some err) \<Rightarrow> (r', Inl err)
                 | (r', ret', None) \<Rightarrow>
                     v1alpha1_matchAnyLoop parse ev r' features rest True ret'))
      | (None, None) \<Rightarrow> v1alpha1_matchAnyLoop parse ev r features rest matched ret)"

text \<open>\<open>Rule.Execute\<close>: the labels and the error it returns, and the rule as it is
  left.\<close>

definition Execute ::
  "(string \<Rightarrow> error + template) \<Rightarrow> 'e Evaluator \<Rightarrow> 'e Rule \<Rightarrow> Features
     \<Rightarrow> (labels option \<times> error option) \<times> 'e Rule" where
  "Execute parse ev r features =
     (let ret = Map.empty in
      case (if length (MatchAny r) > 0 then
              (case v1alpha1_matchAnyLoop parse ev r features (MatchAny r) False ret of
                 (r', Inl err) \<Rightarrow> Inl ((None, Some err), r')
               | (r', Inr (matched, ret')) \<Rightarrow>
                   if \<not> matched then Inl ((None, None), r') else Inr (r', ret'))
            else Inr (r, ret)) of
        Inl result \<Rightarrow> result
      | Inr (r, ret) \<Rightarrow>
          (case (if length (Rule.MatchFeatures r) > 0 then
                   (case match ev (Rule.MatchFeatures r) features of
                      (_, Some err) \<Rightarrow> Inl ((None, Some err), r)
                    | (None, None) \<Rightarrow> Inl ((None, None), r)
                    | (Some m, None) \<Rightarrow>
                        (case v1alpha1_executeLabelsTemplate parse r m ret of
                           (r', _, Some err) \<Rightarrow> Inl ((None, Some err), r')
                         | (r', ret', None) \<Rightarrow> Inr (r', ret')))
                 else Inr (r, ret)) of
             Inl result \<Rightarrow> result
           | Inr (r, ret) \<Rightarrow> ((Some (ret ++ Labels r), None), r)))"

section \<open>Auxiliary definitions\<close>

subsection \<open>The functions in parts\<close>

text \<open>
  One pass of the loop of \<open>FeatureMatcher.match\<close>, in its two steps. The first
  resolves the feature reference of the term: it splits the reference at the first dot,
  puts the feature name in lower case, looks the domain up in the snapshot and the name
  in the key sets, then in the value sets, then in the instance sets of the domain; it
  gives the error, or the domain, the name and the set found.
\<close>

datatype featureSet =
    KeySet KeyFeatureSet
  | ValueSet ValueFeatureSet
  | InstanceSet InstanceFeatureSet

definition resolveFeature ::
  "'e Evaluator \<Rightarrow> Features \<Rightarrow> string \<Rightarrow> error + (string \<times> string \<times> featureSet)" where
  "resolveFeature ev features ref =
     (let split = SplitN2 ref (CHR ''.'') in
      if length split \<noteq> 2 then Inl (InvalidFeature ref)
      else
        let domain = split ! 0; featureName = ToLower (nameToLower ev) (split ! 1) in
        (case features domain of
           None \<Rightarrow> Inl (UnknownDomain domain)
         | Some domainFeatures \<Rightarrow>
             (case Keys domainFeatures featureName of
                Some k \<Rightarrow> Inr (domain, featureName, KeySet k)
              | None \<Rightarrow>
                  (case Values domainFeatures featureName of
                     Some v \<Rightarrow> Inr (domain, featureName, ValueSet v)
                   | None \<Rightarrow>
                       (case Instances domainFeatures featureName of
                          Some i \<Rightarrow> Inr (domain, featureName, InstanceSet i)
                        | None \<Rightarrow> Inl (FeatureNotAvailable featureName domain))))))"

text \<open>The second step hands the set found to the evaluator method for its kind: the
  matched elements \<open>v\<close> that the method returns, and its error.\<close>

definition evaluateOn :: "'e Evaluator \<Rightarrow> 'e \<Rightarrow> featureSet \<Rightarrow> matched \<times> error option" where
  "evaluateOn ev e fs =
     (case fs of
        KeySet k \<Rightarrow> (let (v, err) = MatchGetKeys ev e k in (MatchedKeys v, err))
      | ValueSet k \<Rightarrow> (let (v, err) = MatchGetValues ev e k in (MatchedValues v, err))
      | InstanceSet k \<Rightarrow> (let (v, err) = MatchGetInstances ev e k in (MatchedInstances v, err)))"

text \<open>\<open>len(v)\<close>: the number of matched elements.\<close>

fun matchedLen :: "matched \<Rightarrow> nat" where
  "matchedLen (MatchedKeys v) = length v"
| "matchedLen (MatchedValues v) = length v"
| "matchedLen (MatchedInstances v) = length v"

text \<open>
  The outcome of a term: the error of resolving or evaluating it, or the number of
  elements it matches. A term \<^emph>\<open>matches at least one element\<close> when its outcome is a
  number greater than zero, which is the test \<open>m = len(v) > 0\<close> of the loop.
\<close>

definition termOutcome :: "'e Evaluator \<Rightarrow> Features \<Rightarrow> 'e FeatureMatcherTerm \<Rightarrow> error + nat" where
  "termOutcome ev features t =
     (case resolveFeature ev features (Feature t) of
        Inl e \<Rightarrow> Inl e
      | Inr (domain, featureName, fs) \<Rightarrow>
          (case evaluateOn ev (MatchExpressions t) fs of
             (v, Some e) \<Rightarrow> Inl e
           | (v, None) \<Rightarrow> Inr (matchedLen v)))"

text \<open>The same with what the loop stores: the domain, the feature name, the matched
  elements, and whether there is one. It is related to the loop by lemma
  \<open>matchTerms_Cons\<close>.\<close>

definition evalTerm ::
  "'e Evaluator \<Rightarrow> Features \<Rightarrow> 'e FeatureMatcherTerm \<Rightarrow> error + (string \<times> string \<times> matched \<times> bool)" where
  "evalTerm ev features t =
     (case resolveFeature ev features (Feature t) of
        Inl e \<Rightarrow> Inl e
      | Inr (domain, featureName, fs) \<Rightarrow>
          (case evaluateOn ev (MatchExpressions t) fs of
             (v, Some e) \<Rightarrow> Inl e
           | (v, None) \<Rightarrow> Inr (domain, featureName, v, 0 < matchedLen v)))"

text \<open>The part of \<open>Rule.execute\<close> after the \<open>MatchAny\<close> block, entered with the map
  \<open>ret\<close>: the \<open>MatchFeatures\<close> block and the merge of the static labels. It is
  related to \<open>execute\<close> by lemma \<open>execute_unfold\<close>.\<close>

definition executeFrom ::
  "'e Evaluator \<Rightarrow> 'e Rule \<Rightarrow> Features \<Rightarrow> labels \<Rightarrow> labels option \<times> error option" where
  "executeFrom ev r features ret =
     (if length (Rule.MatchFeatures r) > 0 then
        (case match ev (Rule.MatchFeatures r) features of
           (_, Some err) \<Rightarrow> (None, Some err)
         | (None, None) \<Rightarrow> (None, None)
         | (Some m, None) \<Rightarrow>
             (case executeLabelsTemplate r m ret of
                (_, Some err) \<Rightarrow> (None, Some err)
              | (ret', None) \<Rightarrow> (Some (ret' ++ Labels r), None)))
      else (Some (ret ++ Labels r), None))"

text \<open>The same part of \<open>Rule.Execute\<close> of \<open>v1alpha1\<close>, related to \<open>Execute\<close> by
  lemma \<open>Execute_unfold\<close>.\<close>

definition ExecuteFrom ::
  "(string \<Rightarrow> error + template) \<Rightarrow> 'e Evaluator \<Rightarrow> 'e Rule \<Rightarrow> Features \<Rightarrow> labels
     \<Rightarrow> (labels option \<times> error option) \<times> 'e Rule" where
  "ExecuteFrom parse ev r features ret =
     (if length (Rule.MatchFeatures r) > 0 then
        (case match ev (Rule.MatchFeatures r) features of
           (_, Some err) \<Rightarrow> ((None, Some err), r)
         | (None, None) \<Rightarrow> ((None, None), r)
         | (Some m, None) \<Rightarrow>
             (case v1alpha1_executeLabelsTemplate parse r m ret of
                (r', _, Some err) \<Rightarrow> ((None, Some err), r')
              | (r', ret', None) \<Rightarrow> ((Some (ret' ++ Labels r'), None), r')))
      else ((Some (ret ++ Labels r), None), r))"

subsection \<open>The specification's words\<close>

text \<open>
  The label expansion in the words of the specification, with the value of a line
  without \<open>=\<close> as a parameter: split the text on newlines, trim each line, drop the
  lines that are empty, and split each remaining line once on its first \<open>=\<close>.
\<close>

definition specLabel :: "string \<Rightarrow> string \<Rightarrow> string \<times> string" where
  "specLabel dflt line =
     (if CHR ''='' \<in> set line
      then (takeWhile (\<lambda>c. c \<noteq> CHR ''='') line, tl (dropWhile (\<lambda>c. c \<noteq> CHR ''='') line))
      else (line, dflt))"

definition specLabels :: "string \<Rightarrow> string \<Rightarrow> (string \<times> string) list" where
  "specLabels dflt txt =
     map (specLabel dflt) (filter (\<lambda>l. l \<noteq> []) (map TrimSpace (Split txt (CHR 0x0A))))"

text \<open>Writing a list of labels into a map, in order: a later label replaces an earlier
  one with the same key.\<close>

definition writeLabels :: "labels \<Rightarrow> (string \<times> string) list \<Rightarrow> labels" where
  "writeLabels out kvs = foldl (\<lambda>m (k, v). m(k \<mapsto> v)) out kvs"

text \<open>
  The accumulation over the \<open>MatchAny\<close> alternatives in the words of the
  specification. \<open>matchedAlternatives\<close> are the matched features of the alternatives
  that match, in the order of the alternatives; \<open>templateLabels\<close> are the labels the
  template gives for one of them (\<open>dflt\<close> is the value of a line without \<open>=\<close>);
  \<open>accumulate\<close> adds them up in order, a later map overriding an earlier one.
\<close>

definition matchedAlternatives ::
  "'e Evaluator \<Rightarrow> Features \<Rightarrow> 'e MatchAnyElem list \<Rightarrow> matchedFeatures list" where
  "matchedAlternatives ev f alts = List.map_filter (\<lambda>a. fst (MatchAnyElem_match ev a f)) alts"

definition templateLabels :: "string \<Rightarrow> template \<Rightarrow> matchedFeatures \<Rightarrow> labels" where
  "templateLabels dflt tmpl m =
     (case tmpl m of
        Inl err \<Rightarrow> Map.empty
      | Inr s \<Rightarrow> writeLabels Map.empty (specLabels dflt s))"

definition accumulate :: "string \<Rightarrow> template \<Rightarrow> labels \<Rightarrow> matchedFeatures list \<Rightarrow> labels" where
  "accumulate dflt tmpl ret ms = foldl (\<lambda>acc m. acc ++ templateLabels dflt tmpl m) ret ms"

subsection \<open>Example data\<close>

text \<open>An evaluator for expression sets that are lists of names which must all exist,
  a feature snapshot with one domain, and terms over it.\<close>

definition existsEvaluator :: "string list Evaluator" where
  "existsEvaluator =
     \<lparr>MatchGetKeys = (\<lambda>e keys. (if list_all (\<lambda>k. keys k \<noteq> None) e then e else [], None)),
      MatchGetValues = (\<lambda>e vals.
         (if list_all (\<lambda>k. vals k \<noteq> None) e
          then map (\<lambda>k. (k, case vals k of None \<Rightarrow> [] | Some v \<Rightarrow> v)) e else [], None)),
      MatchGetInstances = (\<lambda>e insts. (filter (\<lambda>i. list_all (\<lambda>k. i k \<noteq> None) e) insts, None)),
      nameToLower = (\<lambda>s. s)\<rparr>"

definition exampleFeatures :: Features where
  "exampleFeatures =
     [''domain-1'' \<mapsto>
        \<lparr>Keys = [''kf-1'' \<mapsto> [''key-1'' \<mapsto> ()]],
         Values = [''vf-1'' \<mapsto> [''key-1'' \<mapsto> ''val-1'']],
         Instances = [''if-1'' \<mapsto> [[''attr-1'' \<mapsto> ''1''], [''attr-1'' \<mapsto> ''10'']]]\<rparr>]"

definition termKey1 :: "string list FeatureMatcherTerm" where
  "termKey1 = \<lparr>Feature = ''domain-1.KF-1'', MatchExpressions = [''key-1'']\<rparr>"
definition termKeyNa :: "string list FeatureMatcherTerm" where
  "termKeyNa = \<lparr>Feature = ''domain-1.kf-1'', MatchExpressions = [''key-na'']\<rparr>"
definition termValue1 :: "string list FeatureMatcherTerm" where
  "termValue1 = \<lparr>Feature = ''domain-1.vf-1'', MatchExpressions = [''key-1'']\<rparr>"
definition termNoDomain :: "string list FeatureMatcherTerm" where
  "termNoDomain = \<lparr>Feature = ''domain-x.kf-1'', MatchExpressions = [''key-1'']\<rparr>"
definition termNoFeature :: "string list FeatureMatcherTerm" where
  "termNoFeature = \<lparr>Feature = ''domain-1.nf-1'', MatchExpressions = [''key-1'']\<rparr>"
definition termInstance1 :: "string list FeatureMatcherTerm" where
  "termInstance1 = \<lparr>Feature = ''domain-1.if-1'', MatchExpressions = [''attr-1'']\<rparr>"

definition exampleRule :: "string list Rule" where
  "exampleRule =
     \<lparr>Rule.Name = ''rule-1'', Labels = [''label-1'' \<mapsto> ''label-val-1''], LabelsTemplate = [],
      Rule.MatchFeatures = [], MatchAny = [], labelsTemplate = None\<rparr>"

text \<open>Parsing a template text, for the examples: the template that writes the text
  itself, whatever it is given.\<close>

definition textTemplate :: "string \<Rightarrow> template" where
  "textTemplate s inp = Inr s"

definition exampleParse :: "string \<Rightarrow> error + template" where
  "exampleParse s = Inr (textTemplate s)"

text \<open>The template output \<open>a=1\<close>, \<open>b\<close>, an empty line and a line of two spaces, each
  ended by a newline.\<close>

definition exampleOutput :: string where
  "exampleOutput = ''a=1'' @ [CHR 0x0A] @ ''b'' @ [CHR 0x0A, CHR 0x0A] @ ''  '' @ [CHR 0x0A]"

definition altKey1 :: "string list MatchAnyElem" where
  "altKey1 = \<lparr>MatchAnyElem.MatchFeatures = [termKey1]\<rparr>"
definition altKeyNa :: "string list MatchAnyElem" where
  "altKeyNa = \<lparr>MatchAnyElem.MatchFeatures = [termKeyNa]\<rparr>"
definition altValue1 :: "string list MatchAnyElem" where
  "altValue1 = \<lparr>MatchAnyElem.MatchFeatures = [termValue1]\<rparr>"
definition altNoDomain :: "string list MatchAnyElem" where
  "altNoDomain = \<lparr>MatchAnyElem.MatchFeatures = [termNoDomain]\<rparr>"

text \<open>A rule with a template that is compiled already, in both fields.\<close>

definition templateRule :: "string \<Rightarrow> string list Rule" where
  "templateRule s = exampleRule\<lparr>LabelsTemplate := s, labelsTemplate := Some (textTemplate s)\<rparr>"

text \<open>A template whose output depends on what matched: two lines, \<open>last=keys\<close> and
  \<open>keys\<close>, when the key feature \<open>kf-1\<close> of \<open>domain-1\<close> is among the matched
  features, and \<open>last=values\<close> and \<open>values\<close> otherwise.\<close>

definition featureTemplate :: template where
  "featureTemplate m =
     Inr (case m ''domain-1'' of
            None \<Rightarrow> ''last=values'' @ [CHR 0x0A] @ ''values''
          | Some d \<Rightarrow>
              (case d ''kf-1'' of
                 None \<Rightarrow> ''last=values'' @ [CHR 0x0A] @ ''values''
               | Some v \<Rightarrow> ''last=keys'' @ [CHR 0x0A] @ ''keys''))"

definition featureRule :: "string list Rule" where
  "featureRule =
     exampleRule\<lparr>LabelsTemplate := ''t'', labelsTemplate := Some featureTemplate,
                 MatchAny := [altKey1, altKeyNa, altValue1]\<rparr>"

text \<open>Legacy sub-rules for the examples: a sub-rule is a string, \<open>yes\<close> matches,
  \<open>fail\<close> gives an error, any other does not match.\<close>

definition exampleMatch :: "string \<Rightarrow> bool \<times> error option" where
  "exampleMatch rl =
     (if rl = ''fail'' then (False, Some (External ''not available'')) else (rl = ''yes'', None))"

definition legacyUnset :: "string LegacyMatcher" where
  "legacyUnset =
     \<lparr>PciID = None, UsbID = None, LoadedKMod = None, CpuID = None, Kconfig = None,
      Nodename = None\<rparr>"

definition legacyYes :: "string LegacyMatcher" where
  "legacyYes = legacyUnset\<lparr>PciID := Some ''yes'', Nodename := Some ''yes''\<rparr>"

definition legacyNo :: "string LegacyMatcher" where
  "legacyNo = legacyUnset\<lparr>PciID := Some ''yes'', Kconfig := Some ''no''\<rparr>"

definition legacyFail :: "string LegacyMatcher" where
  "legacyFail = legacyUnset\<lparr>CpuID := Some ''fail''\<rparr>"

definition exampleLegacyRule :: "string LegacyRule" where
  "exampleLegacyRule = \<lparr>LegacyRule.Name = ''feature-1'', Value = None, MatchOn = []\<rparr>"

text \<open>Decoders for the examples: the text \<open>legacy\<close> parses to a map with the keys
  \<open>name\<close> and \<open>MatchOn\<close>, the text \<open>modern\<close> to a map with the keys \<open>name\<close> and
  \<open>matchFeatures\<close>, and any other text does not parse.\<close>

definition exampleDecoders :: "(string, string list) Decoders" where
  "exampleDecoders =
     \<lparr>rawParse = (\<lambda>data.
        if data = ''legacy'' then Inr [(''name'', ''1''), (''MatchOn'', ''2'')]
        else if data = ''modern'' then Inr [(''name'', ''1''), (''matchFeatures'', ''2'')]
        else Inl (External ''syntax error'')),
      decodeLegacy = (\<lambda>data. (Some exampleLegacyRule, None)),
      decodeRule = (\<lambda>data. (Some exampleRule, None)),
      keyToLower = (\<lambda>s. s)\<rparr>"

definition emptyCustomRule :: "(string, string list) CustomRule" where
  "emptyCustomRule = \<lparr>LegacyRule = None, Rule = None\<rparr>"

text \<open>Encoders for the examples: every rule is encoded as an empty object.\<close>

definition exampleEncLegacy :: "string LegacyRule \<Rightarrow> string \<times> error option" where
  "exampleEncLegacy lr = (''{}'', None)"

definition exampleEncRule :: "string list Rule \<Rightarrow> string \<times> error option" where
  "exampleEncRule mr = (''{}'', None)"
definition goodCustomRule :: "(string, string list) CustomRule" where
  "goodCustomRule = \<lparr>LegacyRule = None, Rule = Some exampleRule\<rparr>"

definition badCustomRule :: "(string, string list) CustomRule" where
  "badCustomRule = \<lparr>LegacyRule = None, Rule = Some (exampleRule\<lparr>MatchFeatures := [termNoDomain]\<rparr>)\<rparr>"

definition legacyCustomRule :: "(string, string list) CustomRule" where
  "legacyCustomRule = \<lparr>LegacyRule = Some exampleLegacyRule, Rule = None\<rparr>"

section \<open>Properties of FeatureMatcher.match\<close>

lemma matchTerms_Cons:
  "matchTerms ev f (t # ts) ret =
     (case evalTerm ev f t of
        Inl e \<Rightarrow> (None, Some e)
      | Inr (d, n, v, m) \<Rightarrow>
          if m then matchTerms ev f ts (storeMatched ret d n v) else (None, None))"
proof (cases "length (SplitN2 (Feature t) (CHR ''.'')) \<noteq> 2")
  case True
  then show ?thesis by (simp add: evalTerm_def resolveFeature_def Let_def)
next
  case False
  note L = this
  show ?thesis
  proof (cases "f (SplitN2 (Feature t) (CHR ''.'') ! 0)")
    case None
    with L show ?thesis by (simp add: evalTerm_def resolveFeature_def Let_def)
  next
    case (Some df)
    note D = this
    show ?thesis
    proof (cases "Keys df (ToLower (nameToLower ev) (SplitN2 (Feature t) (CHR ''.'') ! 1))")
      case (Some k)
      with L D show ?thesis
        by (cases "MatchGetKeys ev (MatchExpressions t) k")
           (auto simp: evalTerm_def resolveFeature_def evaluateOn_def Let_def split: option.splits)
    next
      case None
      note K = this
      show ?thesis
      proof (cases "Values df (ToLower (nameToLower ev) (SplitN2 (Feature t) (CHR ''.'') ! 1))")
        case (Some k)
        with L D K show ?thesis
          by (cases "MatchGetValues ev (MatchExpressions t) k")
             (auto simp: evalTerm_def resolveFeature_def evaluateOn_def Let_def
               split: option.splits)
      next
        case None
        note V = this
        show ?thesis
        proof (cases "Instances df (ToLower (nameToLower ev) (SplitN2 (Feature t) (CHR ''.'') ! 1))")
          case (Some k)
          with L D K V show ?thesis
            by (cases "MatchGetInstances ev (MatchExpressions t) k")
               (auto simp: evalTerm_def resolveFeature_def evaluateOn_def Let_def
                 split: option.splits)
        next
          case None
          with L D K V show ?thesis by (simp add: evalTerm_def resolveFeature_def Let_def)
        qed
      qed
    qed
  qed
qed

declare matchTerms.simps(2) [simp del]

lemma match_single:
  "match ev [t] f =
     (case evalTerm ev f t of
        Inl e \<Rightarrow> (None, Some e)
      | Inr (d, n, v, m) \<Rightarrow>
          if m then (Some (storeMatched Map.empty d n v), None) else (None, None))"
  by (simp add: match_def matchTerms_Cons split: sum.splits)

lemma single_matches_iff:
  "(fst (match ev [t] f) \<noteq> None) = (\<exists>d n v. evalTerm ev f t = Inr (d, n, v, True))"
  by (auto simp: match_single split: sum.splits)

lemma single_no_error_iff:
  "(snd (match ev [t] f) = None) = (\<exists>d n v m. evalTerm ev f t = Inr (d, n, v, m))"
  by (auto simp: match_single split: sum.splits)

lemma termOutcome_evalTerm:
  "termOutcome ev f t =
     (case evalTerm ev f t of Inl e \<Rightarrow> Inl e | Inr (d, n, v, m) \<Rightarrow> Inr (matchedLen v))"
  by (simp add: termOutcome_def evalTerm_def split: sum.splits prod.splits option.splits)

lemma evalTerm_flag:
  "evalTerm ev f t = Inr (d, n, v, m) \<Longrightarrow> m = (0 < matchedLen v)"
  by (auto simp: evalTerm_def split: sum.splits prod.splits option.splits)

lemma outcome_positive_iff:
  "(\<exists>k. termOutcome ev f t = Inr k \<and> 0 < k) = (fst (match ev [t] f) \<noteq> None)"
proof -
  have "(\<exists>k. termOutcome ev f t = Inr k \<and> 0 < k) = (\<exists>d n v. evalTerm ev f t = Inr (d, n, v, True))"
  proof (cases "evalTerm ev f t")
    case (Inl e)
    then show ?thesis by (simp add: termOutcome_evalTerm)
  next
    case (Inr x)
    then obtain d n v m where X: "evalTerm ev f t = Inr (d, n, v, m)" by (cases x) auto
    with evalTerm_flag [OF X] show ?thesis by (auto simp: termOutcome_evalTerm)
  qed
  then show ?thesis by (simp only: single_matches_iff)
qed

lemma outcome_number_iff:
  "(\<exists>k. termOutcome ev f t = Inr k) = (snd (match ev [t] f) = None)"
proof -
  have "(\<exists>k. termOutcome ev f t = Inr k) = (\<exists>d n v m. evalTerm ev f t = Inr (d, n, v, m))"
    by (cases "evalTerm ev f t") (auto simp: termOutcome_evalTerm)
  then show ?thesis by (simp only: single_no_error_iff)
qed

lemma outcome_zero_iff:
  "(termOutcome ev f t = Inr 0) = (match ev [t] f = (None, None))"
proof (cases "evalTerm ev f t")
  case (Inl e)
  then show ?thesis by (simp add: termOutcome_evalTerm match_single)
next
  case (Inr x)
  then obtain d n v m where X: "evalTerm ev f t = Inr (d, n, v, m)" by (cases x) auto
  with evalTerm_flag [OF X] show ?thesis by (auto simp: termOutcome_evalTerm match_single)
qed

lemma matchTerms_prefix_matches:
  "\<forall>p\<in>set pre. fst (match ev [p] f) \<noteq> None \<Longrightarrow>
   \<exists>ret'. matchTerms ev f (pre @ rest) ret = matchTerms ev f rest ret'"
proof (induction pre arbitrary: ret)
  case Nil
  then show ?case by auto
next
  case (Cons p pre)
  from Cons.prems have "fst (match ev [p] f) \<noteq> None" by simp
  then obtain d n v where "evalTerm ev f p = Inr (d, n, v, True)"
    unfolding single_matches_iff by blast
  moreover from Cons.prems have "\<forall>p\<in>set pre. fst (match ev [p] f) \<noteq> None" by simp
  ultimately show ?case
    using Cons.IH [of "storeMatched ret d n v"] by (simp add: matchTerms_Cons)
qed

lemma matchTerms_all_match:
  "\<forall>p\<in>set ts. fst (match ev [p] f) \<noteq> None \<Longrightarrow> \<exists>ret'. matchTerms ev f ts ret = (Some ret', None)"
  using matchTerms_prefix_matches [of ts ev f "[]" ret] by simp

lemma matchTerms_some_nonmatch:
  "\<forall>p\<in>set ts. snd (match ev [p] f) = None \<Longrightarrow> \<exists>p\<in>set ts. fst (match ev [p] f) = None \<Longrightarrow>
   matchTerms ev f ts ret = (None, None)"
proof (induction ts arbitrary: ret)
  case Nil
  then show ?case by simp
next
  case (Cons t ts)
  from Cons.prems(1) have "snd (match ev [t] f) = None" by simp
  then obtain d n v m where E: "evalTerm ev f t = Inr (d, n, v, m)"
    unfolding single_no_error_iff by blast
  show ?case
  proof (cases m)
    case False
    with E show ?thesis by (simp add: matchTerms_Cons)
  next
    case True
    with E have "evalTerm ev f t = Inr (d, n, v, True)" by simp
    then have "fst (match ev [t] f) \<noteq> None" unfolding single_matches_iff by blast
    with Cons.prems have "\<exists>p\<in>set ts. fst (match ev [p] f) = None" by auto
    moreover from Cons.prems have "\<forall>p\<in>set ts. snd (match ev [p] f) = None" by simp
    ultimately have "matchTerms ev f ts (storeMatched ret d n v) = (None, None)"
      by (rule Cons.IH [rotated])
    with E True show ?thesis by (simp add: matchTerms_Cons)
  qed
qed

lemma match_reached_nonmatch:
  assumes "\<forall>p\<in>set pre. fst (match ev [p] f) \<noteq> None" and "match ev [t] f = (None, None)"
  shows "match ev (pre @ t # post) f = (None, None)"
proof -
  from assms(1) obtain ret' where
    "matchTerms ev f (pre @ t # post) Map.empty = matchTerms ev f (t # post) ret'"
    using matchTerms_prefix_matches [of pre ev f "t # post" Map.empty] by blast
  moreover from assms(2) obtain d n v where "evalTerm ev f t = Inr (d, n, v, False)"
    by (cases "evalTerm ev f t") (auto simp: match_single split: if_splits)
  ultimately show ?thesis by (simp add: match_def matchTerms_Cons)
qed

lemma matchTerms_reached_error:
  assumes "\<forall>p\<in>set pre. fst (match ev [p] f) \<noteq> None" and "evalTerm ev f t = Inl e"
  shows "match ev (pre @ t # post) f = (None, Some e)"
proof -
  from assms(1) obtain ret' where
    "matchTerms ev f (pre @ t # post) Map.empty = matchTerms ev f (t # post) ret'"
    using matchTerms_prefix_matches [of pre ev f "t # post" Map.empty] by blast
  with assms(2) show ?thesis by (simp add: match_def matchTerms_Cons)
qed

text \<open>The outcome of a term whose reference resolves, by the kind of set that the
  feature name is found in: the evaluator method for that kind decides, and the number
  is the length of the list it returns.\<close>

lemma outcome_keys:
  assumes "SplitN2 (Feature t) (CHR ''.'') = [domain, name]" and "f domain = Some df"
    and "Keys df (ToLower (nameToLower ev) name) = Some k"
  shows "termOutcome ev f t =
           (case MatchGetKeys ev (MatchExpressions t) k of
              (v, Some e) \<Rightarrow> Inl e
            | (v, None) \<Rightarrow> Inr (length v))"
  using assms
  by (auto simp: termOutcome_def resolveFeature_def evaluateOn_def
      split: prod.splits option.splits)

lemma outcome_values:
  assumes "SplitN2 (Feature t) (CHR ''.'') = [domain, name]" and "f domain = Some df"
    and "Keys df (ToLower (nameToLower ev) name) = None"
    and "Values df (ToLower (nameToLower ev) name) = Some k"
  shows "termOutcome ev f t =
           (case MatchGetValues ev (MatchExpressions t) k of
              (v, Some e) \<Rightarrow> Inl e
            | (v, None) \<Rightarrow> Inr (length v))"
  using assms
  by (auto simp: termOutcome_def resolveFeature_def evaluateOn_def
      split: prod.splits option.splits)

lemma outcome_instances:
  assumes "SplitN2 (Feature t) (CHR ''.'') = [domain, name]" and "f domain = Some df"
    and "Keys df (ToLower (nameToLower ev) name) = None"
    and "Values df (ToLower (nameToLower ev) name) = None"
    and "Instances df (ToLower (nameToLower ev) name) = Some k"
  shows "termOutcome ev f t =
           (case MatchGetInstances ev (MatchExpressions t) k of
              (v, Some e) \<Rightarrow> Inl e
            | (v, None) \<Rightarrow> Inr (length v))"
  using assms
  by (auto simp: termOutcome_def resolveFeature_def evaluateOn_def
      split: prod.splits option.splits)

lemma ToLower_examples:
  "ToLower u ''kf-1'' = ''kf-1''" "ToLower u ''KF-1'' = ''kf-1''" "ToLower u ''vf-1'' = ''vf-1''"
  "ToLower u ''if-1'' = ''if-1''" "ToLower u ''nf-1'' = ''nf-1''"
  by (simp_all add: ToLower_def isASCII_def toLowerChar_def)

lemma example_splits:
  "SplitN2 (Feature termKey1) (CHR ''.'') = [''domain-1'', ''KF-1'']"
  "SplitN2 (Feature termKeyNa) (CHR ''.'') = [''domain-1'', ''kf-1'']"
  "SplitN2 (Feature termValue1) (CHR ''.'') = [''domain-1'', ''vf-1'']"
  "SplitN2 (Feature termInstance1) (CHR ''.'') = [''domain-1'', ''if-1'']"
  "SplitN2 (Feature termNoDomain) (CHR ''.'') = [''domain-x'', ''kf-1'']"
  "SplitN2 (Feature termNoFeature) (CHR ''.'') = [''domain-1'', ''nf-1'']"
  by (simp_all add: SplitN2_def termKey1_def termKeyNa_def termValue1_def termInstance1_def
      termNoDomain_def termNoFeature_def)

lemma example_exprs:
  "MatchExpressions termKey1 = [''key-1'']" "MatchExpressions termKeyNa = [''key-na'']"
  "MatchExpressions termValue1 = [''key-1'']" "MatchExpressions termInstance1 = [''attr-1'']"
  by (simp_all add: termKey1_def termKeyNa_def termValue1_def termInstance1_def)

lemma example_terms:
  "evalTerm existsEvaluator exampleFeatures termKey1 =
     Inr (''domain-1'', ''kf-1'', MatchedKeys [''key-1''], True)"
  "evalTerm existsEvaluator exampleFeatures termKeyNa =
     Inr (''domain-1'', ''kf-1'', MatchedKeys [], False)"
  "evalTerm existsEvaluator exampleFeatures termValue1 =
     Inr (''domain-1'', ''vf-1'', MatchedValues [(''key-1'', ''val-1'')], True)"
  "evalTerm existsEvaluator exampleFeatures termInstance1 =
     Inr (''domain-1'', ''if-1'',
          MatchedInstances [[''attr-1'' \<mapsto> ''1''], [''attr-1'' \<mapsto> ''10'']], True)"
  "evalTerm existsEvaluator exampleFeatures termNoDomain = Inl (UnknownDomain ''domain-x'')"
  "evalTerm existsEvaluator exampleFeatures termNoFeature =
     Inl (FeatureNotAvailable ''nf-1'' ''domain-1'')"
  by (simp_all add: evalTerm_def resolveFeature_def evaluateOn_def example_splits
      example_exprs ToLower_examples exampleFeatures_def existsEvaluator_def Let_def)

lemma example_outcomes:
  "termOutcome existsEvaluator exampleFeatures termKey1 = Inr 1"
  "termOutcome existsEvaluator exampleFeatures termKeyNa = Inr 0"
  "termOutcome existsEvaluator exampleFeatures termValue1 = Inr 1"
  "termOutcome existsEvaluator exampleFeatures termInstance1 = Inr 2"
  "termOutcome existsEvaluator exampleFeatures termNoDomain = Inl (UnknownDomain ''domain-x'')"
  "termOutcome existsEvaluator exampleFeatures termNoFeature =
     Inl (FeatureNotAvailable ''nf-1'' ''domain-1'')"
  by (simp_all add: termOutcome_evalTerm example_terms)

text \<open>
  Claim C3. The outcome of a term whose reference resolves and whose expression
  evaluates without error is the number of elements that the expression evaluator
  returns for it: the length of the list returned by \<open>MatchGetKeys\<close> when the feature
  name is a key set of the domain, else by \<open>MatchGetValues\<close> when it is a value set, else
  by \<open>MatchGetInstances\<close> when it is an instance set. Take a matcher each of whose terms
  has such an outcome. Then \<open>match\<close> returns a non-nil result exactly when every term
  matches at least one element; it never returns an error; it returns the nil result
  without an error as soon as one term matches no element; and replacing any one term of
  a matching matcher by a term that matches no element gives the nil result without an
  error.
\<close>

theorem match_is_conjunction_of_terms:
  assumes "\<forall>t\<in>set m. \<exists>k. termOutcome ev f t = Inr k"
  shows "((fst (match ev m f) \<noteq> None) =
            (\<forall>t\<in>set m. \<exists>k. termOutcome ev f t = Inr k \<and> 0 < k))
       \<and> snd (match ev m f) = None
       \<and> ((\<exists>t\<in>set m. termOutcome ev f t = Inr 0) \<longrightarrow> match ev m f = (None, None))
       \<and> (\<forall>i t'. i < length m \<and> fst (match ev m f) \<noteq> None \<and> termOutcome ev f t' = Inr 0
             \<longrightarrow> match ev (m[i := t']) f = (None, None))
       \<and> (\<forall>t domain name df k.
             SplitN2 (Feature t) (CHR ''.'') = [domain, name] \<and> f domain = Some df
             \<and> Keys df (ToLower (nameToLower ev) name) = Some k \<longrightarrow>
             termOutcome ev f t =
               (case MatchGetKeys ev (MatchExpressions t) k of
                  (v, Some e) \<Rightarrow> Inl e
                | (v, None) \<Rightarrow> Inr (length v)))
       \<and> (\<forall>t domain name df k.
             SplitN2 (Feature t) (CHR ''.'') = [domain, name] \<and> f domain = Some df
             \<and> Keys df (ToLower (nameToLower ev) name) = None
             \<and> Values df (ToLower (nameToLower ev) name) = Some k \<longrightarrow>
             termOutcome ev f t =
               (case MatchGetValues ev (MatchExpressions t) k of
                  (v, Some e) \<Rightarrow> Inl e
                | (v, None) \<Rightarrow> Inr (length v)))
       \<and> (\<forall>t domain name df k.
             SplitN2 (Feature t) (CHR ''.'') = [domain, name] \<and> f domain = Some df
             \<and> Keys df (ToLower (nameToLower ev) name) = None
             \<and> Values df (ToLower (nameToLower ev) name) = None
             \<and> Instances df (ToLower (nameToLower ev) name) = Some k \<longrightarrow>
             termOutcome ev f t =
               (case MatchGetInstances ev (MatchExpressions t) k of
                  (v, Some e) \<Rightarrow> Inl e
                | (v, None) \<Rightarrow> Inr (length v)))"
proof -
  from assms have noerr: "\<forall>t\<in>set m. snd (match ev [t] f) = None"
    unfolding outcome_number_iff .
  have pos: "(\<forall>t\<in>set m. \<exists>k. termOutcome ev f t = Inr k \<and> 0 < k) =
             (\<forall>t\<in>set m. fst (match ev [t] f) \<noteq> None)"
    unfolding outcome_positive_iff ..
  have nonmatch: "match ev m f = (None, None)" if "\<exists>p\<in>set m. fst (match ev [p] f) = None"
  proof -
    from noerr that have "matchTerms ev f m Map.empty = (None, None)"
      by (rule matchTerms_some_nonmatch)
    then show ?thesis by (simp add: match_def)
  qed
  have c1: "(fst (match ev m f) \<noteq> None) =
            (\<forall>t\<in>set m. \<exists>k. termOutcome ev f t = Inr k \<and> 0 < k)"
  proof (cases "\<forall>t\<in>set m. fst (match ev [t] f) \<noteq> None")
    case True
    then show ?thesis unfolding pos
      using matchTerms_all_match [of m ev f Map.empty] by (auto simp: match_def)
  next
    case False
    then have "\<exists>p\<in>set m. fst (match ev [p] f) = None" by simp
    then have "match ev m f = (None, None)" by (rule nonmatch)
    with False show ?thesis unfolding pos by simp
  qed
  have c2: "snd (match ev m f) = None"
  proof (cases "\<forall>t\<in>set m. fst (match ev [t] f) \<noteq> None")
    case True
    then show ?thesis using matchTerms_all_match [of m ev f Map.empty] by (auto simp: match_def)
  next
    case False
    then have "\<exists>p\<in>set m. fst (match ev [p] f) = None" by simp
    then have "match ev m f = (None, None)" by (rule nonmatch)
    then show ?thesis by simp
  qed
  have c3: "(\<exists>t\<in>set m. termOutcome ev f t = Inr 0) \<longrightarrow> match ev m f = (None, None)"
  proof
    assume "\<exists>t\<in>set m. termOutcome ev f t = Inr 0"
    then obtain t where "t \<in> set m" and "match ev [t] f = (None, None)"
      unfolding outcome_zero_iff by blast
    then have "\<exists>p\<in>set m. fst (match ev [p] f) = None" by force
    then show "match ev m f = (None, None)" by (rule nonmatch)
  qed
  have c4: "\<forall>i t'. i < length m \<and> fst (match ev m f) \<noteq> None \<and> termOutcome ev f t' = Inr 0
             \<longrightarrow> match ev (m[i := t']) f = (None, None)"
  proof (intro allI impI)
    fix i t'
    assume A: "i < length m \<and> fst (match ev m f) \<noteq> None \<and> termOutcome ev f t' = Inr 0"
    then have Z: "match ev [t'] f = (None, None)" unfolding outcome_zero_iff by simp
    from A have "t' \<in> set (m[i := t'])" by (simp add: set_update_memI)
    moreover from Z have "fst (match ev [t'] f) = None" by simp
    ultimately have 1: "\<exists>p\<in>set (m[i := t']). fst (match ev [p] f) = None" by blast
    have "set (m[i := t']) \<subseteq> insert t' (set m)" by (rule set_update_subset_insert)
    moreover from Z have "snd (match ev [t'] f) = None" by simp
    ultimately have 2: "\<forall>p\<in>set (m[i := t']). snd (match ev [p] f) = None"
      using noerr by blast
    from 2 1 have "matchTerms ev f (m[i := t']) Map.empty = (None, None)"
      by (rule matchTerms_some_nonmatch)
    then show "match ev (m[i := t']) f = (None, None)" by (simp add: match_def)
  qed
  have c5: "\<forall>t domain name df k.
             SplitN2 (Feature t) (CHR ''.'') = [domain, name] \<and> f domain = Some df
             \<and> Keys df (ToLower (nameToLower ev) name) = Some k \<longrightarrow>
             termOutcome ev f t =
               (case MatchGetKeys ev (MatchExpressions t) k of
                  (v, Some e) \<Rightarrow> Inl e
                | (v, None) \<Rightarrow> Inr (length v))"
    using outcome_keys by blast
  have c6: "\<forall>t domain name df k.
             SplitN2 (Feature t) (CHR ''.'') = [domain, name] \<and> f domain = Some df
             \<and> Keys df (ToLower (nameToLower ev) name) = None
             \<and> Values df (ToLower (nameToLower ev) name) = Some k \<longrightarrow>
             termOutcome ev f t =
               (case MatchGetValues ev (MatchExpressions t) k of
                  (v, Some e) \<Rightarrow> Inl e
                | (v, None) \<Rightarrow> Inr (length v))"
    using outcome_values by blast
  have c7: "\<forall>t domain name df k.
             SplitN2 (Feature t) (CHR ''.'') = [domain, name] \<and> f domain = Some df
             \<and> Keys df (ToLower (nameToLower ev) name) = None
             \<and> Values df (ToLower (nameToLower ev) name) = None
             \<and> Instances df (ToLower (nameToLower ev) name) = Some k \<longrightarrow>
             termOutcome ev f t =
               (case MatchGetInstances ev (MatchExpressions t) k of
                  (v, Some e) \<Rightarrow> Inl e
                | (v, None) \<Rightarrow> Inr (length v))"
    using outcome_instances by blast
  from c1 c2 c3 c4 c5 c6 c7 show ?thesis by (intro conjI)
qed

text \<open>The witness is the matcher of three terms, one on a key set, one on a value set
  and one on an instance set, of which the evaluator returns one, one and two elements;
  replacing the second by a term of which it returns no element gives the nil result.\<close>

theorem match_is_conjunction_of_terms_witness:
  "termOutcome existsEvaluator exampleFeatures termKey1 = Inr 1
   \<and> termOutcome existsEvaluator exampleFeatures termValue1 = Inr 1
   \<and> termOutcome existsEvaluator exampleFeatures termInstance1 = Inr 2
   \<and> termOutcome existsEvaluator exampleFeatures termKeyNa = Inr 0
   \<and> MatchGetInstances existsEvaluator (MatchExpressions termInstance1)
         [[''attr-1'' \<mapsto> ''1''], [''attr-1'' \<mapsto> ''10'']] =
       ([[''attr-1'' \<mapsto> ''1''], [''attr-1'' \<mapsto> ''10'']], None)
   \<and> MatchGetKeys existsEvaluator (MatchExpressions termKeyNa) [''key-1'' \<mapsto> ()] = ([], None)
   \<and> fst (match existsEvaluator [termKey1, termValue1, termInstance1] exampleFeatures) \<noteq> None
   \<and> snd (match existsEvaluator [termKey1, termValue1, termInstance1] exampleFeatures) = None
   \<and> match existsEvaluator [termKey1, termKeyNa, termInstance1] exampleFeatures = (None, None)"
proof -
  have o: "termOutcome existsEvaluator exampleFeatures termKey1 = Inr 1
         \<and> termOutcome existsEvaluator exampleFeatures termValue1 = Inr 1
         \<and> termOutcome existsEvaluator exampleFeatures termKeyNa = Inr 0"
    by (simp add: example_outcomes)
  have h: "\<forall>t\<in>set [termKey1, termValue1, termInstance1].
             \<exists>k. termOutcome existsEvaluator exampleFeatures t = Inr k"
    by (simp add: example_outcomes)
  have g: "\<forall>t\<in>set [termKey1, termKeyNa, termInstance1].
             \<exists>k. termOutcome existsEvaluator exampleFeatures t = Inr k"
    by (simp add: example_outcomes)
  have e: "MatchGetInstances existsEvaluator (MatchExpressions termInstance1)
             [[''attr-1'' \<mapsto> ''1''], [''attr-1'' \<mapsto> ''10'']] =
           ([[''attr-1'' \<mapsto> ''1''], [''attr-1'' \<mapsto> ''10'']], None)
         \<and> MatchGetKeys existsEvaluator (MatchExpressions termKeyNa) [''key-1'' \<mapsto> ()] =
           ([], None)"
    by (simp add: existsEvaluator_def example_exprs)
  have s: "SplitN2 (Feature termInstance1) (CHR ''.'') = [''domain-1'', ''if-1'']
         \<and> exampleFeatures ''domain-1'' = Some (the (exampleFeatures ''domain-1''))
         \<and> Keys (the (exampleFeatures ''domain-1''))
             (ToLower (nameToLower existsEvaluator) ''if-1'') = None
         \<and> Values (the (exampleFeatures ''domain-1''))
             (ToLower (nameToLower existsEvaluator) ''if-1'') = None
         \<and> Instances (the (exampleFeatures ''domain-1''))
             (ToLower (nameToLower existsEvaluator) ''if-1'') =
             Some [[''attr-1'' \<mapsto> ''1''], [''attr-1'' \<mapsto> ''10'']]"
    by (simp add: example_splits ToLower_examples exampleFeatures_def)
  note T = match_is_conjunction_of_terms [OF h]
  note U = match_is_conjunction_of_terms [OF g]
  from T s e have i: "termOutcome existsEvaluator exampleFeatures termInstance1 = Inr 2"
    by (auto simp del: fun_upd_apply)
  with T o have "fst (match existsEvaluator [termKey1, termValue1, termInstance1] exampleFeatures)
                   \<noteq> None
               \<and> snd (match existsEvaluator [termKey1, termValue1, termInstance1] exampleFeatures)
                   = None"
    by simp
  moreover from U o
  have "match existsEvaluator [termKey1, termKeyNa, termInstance1] exampleFeatures = (None, None)"
    by simp
  ultimately show ?thesis using o i e by simp
qed

section \<open>The structure of Rule.execute and Rule.Execute\<close>

lemma execute_unfold:
  "execute ev r f =
     (if MatchAny r = [] then executeFrom ev r f Map.empty
      else (case matchAnyLoop ev r f (MatchAny r) False Map.empty of
              Inl err \<Rightarrow> (None, Some err)
            | Inr (matched, ret') \<Rightarrow>
                if matched then executeFrom ev r f ret' else (None, None)))"
  unfolding execute_def executeFrom_def Let_def
  by (simp split: sum.splits prod.splits option.splits)

lemma Execute_unfold:
  "Execute parse ev r f =
     (if MatchAny r = [] then ExecuteFrom parse ev r f Map.empty
      else (case v1alpha1_matchAnyLoop parse ev r f (MatchAny r) False Map.empty of
              (r', Inl err) \<Rightarrow> ((None, Some err), r')
            | (r', Inr (matched, ret')) \<Rightarrow>
                if matched then ExecuteFrom parse ev r' f ret' else ((None, None), r')))"
  unfolding Execute_def ExecuteFrom_def Let_def
  by (simp split: sum.splits prod.splits option.splits)

lemma matchAnyLoop_Cons:
  "matchAnyLoop ev r f (a # alts) matched ret =
     (case MatchAnyElem_match ev a f of
        (_, Some err) \<Rightarrow> Inl err
      | (None, None) \<Rightarrow> matchAnyLoop ev r f alts matched ret
      | (Some m, None) \<Rightarrow>
          (if labelsTemplate r = None then Inr (True, ret)
           else (case executeLabelsTemplate r m ret of
                   (_, Some err) \<Rightarrow> Inl err
                 | (ret', None) \<Rightarrow> matchAnyLoop ev r f alts True ret')))"
  by (simp split: prod.splits option.splits)

declare matchAnyLoop.simps(2) [simp del]

lemma v1alpha1_matchAnyLoop_Cons:
  "v1alpha1_matchAnyLoop parse ev r f (a # alts) matched ret =
     (case MatchAnyElem_match ev a f of
        (_, Some err) \<Rightarrow> (r, Inl err)
      | (None, None) \<Rightarrow> v1alpha1_matchAnyLoop parse ev r f alts matched ret
      | (Some m, None) \<Rightarrow>
          (if labelsTemplate r = None then (r, Inr (True, ret))
           else (case v1alpha1_executeLabelsTemplate parse r m ret of
                   (r', _, Some err) \<Rightarrow> (r', Inl err)
                 | (r', ret', None) \<Rightarrow>
                     v1alpha1_matchAnyLoop parse ev r' f alts True ret')))"
  by (simp split: prod.splits option.splits)

declare v1alpha1_matchAnyLoop.simps(2) [simp del]

text \<open>A loop over \<open>pre @ rest\<close> that is not left within \<open>pre\<close> goes on over \<open>rest\<close>
  with the state that \<open>pre\<close> leaves. The result \<open>Inr (True, ret)\<close> of a rule without
  a compiled template is the \<open>break\<close>.\<close>

lemma matchAnyLoop_append:
  assumes "matchAnyLoop ev r f pre m0 ret0 = Inr (matched, ret)"
    and "labelsTemplate r = None \<longrightarrow> \<not> matched"
  shows "matchAnyLoop ev r f (pre @ rest) m0 ret0 = matchAnyLoop ev r f rest matched ret"
  using assms(1)
proof (induction pre arbitrary: m0 ret0)
  case Nil
  then show ?case by simp
next
  case (Cons a pre)
  obtain m e where M: "MatchAnyElem_match ev a f = (m, e)"
    by (cases "MatchAnyElem_match ev a f") auto
  show ?case
  proof (cases e)
    case (Some err)
    with M Cons.prems show ?thesis by (cases m) (simp_all add: matchAnyLoop_Cons)
  next
    case None
    note E = this
    show ?thesis
    proof (cases m)
      case None
      with M E Cons.prems have "matchAnyLoop ev r f pre m0 ret0 = Inr (matched, ret)"
        by (simp add: matchAnyLoop_Cons)
      from Cons.IH [OF this] M E None show ?thesis by (simp add: matchAnyLoop_Cons)
    next
      case (Some mf)
      note S = this
      show ?thesis
      proof (cases "labelsTemplate r = None")
        case True
        with M E S Cons.prems assms(2) show ?thesis by (simp add: matchAnyLoop_Cons)
      next
        case False
        then obtain tmpl where T: "labelsTemplate r = Some tmpl" by auto
        obtain out1 e1 where X: "executeLabelsTemplate r mf ret0 = (out1, e1)"
          by (cases "executeLabelsTemplate r mf ret0") auto
        show ?thesis
        proof (cases e1)
          case None
          with M E S T X Cons.prems
          have "matchAnyLoop ev r f pre True out1 = Inr (matched, ret)"
            by (simp add: matchAnyLoop_Cons)
          from Cons.IH [OF this] M E S T X None show ?thesis
            by (simp add: matchAnyLoop_Cons)
        next
          case (Some err)
          with M E S T X Cons.prems show ?thesis by (simp add: matchAnyLoop_Cons)
        qed
      qed
    qed
  qed
qed

lemma v1alpha1_executeLabelsTemplate_compiled:
  "labelsTemplate r \<noteq> None \<Longrightarrow> fst (v1alpha1_executeLabelsTemplate parse r m out) = r"
  unfolding v1alpha1_executeLabelsTemplate_def
  by (auto split: if_splits sum.splits prod.splits option.splits)

text \<open>The loop of \<open>Rule.Execute\<close> leaves the rule as it is: it executes the template
  only when the rule holds a compiled one.\<close>

lemma v1alpha1_matchAnyLoop_rule:
  "fst (v1alpha1_matchAnyLoop parse ev r f alts matched ret) = r"
proof (induction alts arbitrary: matched ret)
  case Nil
  then show ?case by simp
next
  case (Cons a alts)
  obtain m e where M: "MatchAnyElem_match ev a f = (m, e)"
    by (cases "MatchAnyElem_match ev a f") auto
  show ?case
  proof (cases e)
    case (Some err)
    with M show ?thesis by (cases m) (simp_all add: v1alpha1_matchAnyLoop_Cons)
  next
    case None
    note E = this
    show ?thesis
    proof (cases m)
      case None
      with M E Cons.IH show ?thesis by (simp add: v1alpha1_matchAnyLoop_Cons)
    next
      case (Some mf)
      note S = this
      show ?thesis
      proof (cases "labelsTemplate r = None")
        case True
        with M E S show ?thesis by (simp add: v1alpha1_matchAnyLoop_Cons)
      next
        case False
        obtain r1 out1 e1 where X: "v1alpha1_executeLabelsTemplate parse r mf ret = (r1, out1, e1)"
          by (cases "v1alpha1_executeLabelsTemplate parse r mf ret") auto
        with v1alpha1_executeLabelsTemplate_compiled [OF False, of parse mf ret]
        have R: "r1 = r" by simp
        from False obtain tmpl where T: "labelsTemplate r = Some tmpl" by auto
        from M E S T X R Cons.IH show ?thesis
          by (cases e1) (simp_all add: v1alpha1_matchAnyLoop_Cons)
      qed
    qed
  qed
qed

lemma v1alpha1_matchAnyLoop_append:
  assumes "v1alpha1_matchAnyLoop parse ev r f pre m0 ret0 = (r, Inr (matched, ret))"
    and "labelsTemplate r = None \<longrightarrow> \<not> matched"
  shows "v1alpha1_matchAnyLoop parse ev r f (pre @ rest) m0 ret0 =
           v1alpha1_matchAnyLoop parse ev r f rest matched ret"
  using assms(1)
proof (induction pre arbitrary: m0 ret0)
  case Nil
  then show ?case by simp
next
  case (Cons a pre)
  obtain m e where M: "MatchAnyElem_match ev a f = (m, e)"
    by (cases "MatchAnyElem_match ev a f") auto
  show ?case
  proof (cases e)
    case (Some err)
    with M Cons.prems show ?thesis by (cases m) (simp_all add: v1alpha1_matchAnyLoop_Cons)
  next
    case None
    note E = this
    show ?thesis
    proof (cases m)
      case None
      with M E Cons.prems
      have "v1alpha1_matchAnyLoop parse ev r f pre m0 ret0 = (r, Inr (matched, ret))"
        by (simp add: v1alpha1_matchAnyLoop_Cons)
      from Cons.IH [OF this] M E None show ?thesis by (simp add: v1alpha1_matchAnyLoop_Cons)
    next
      case (Some mf)
      note S = this
      show ?thesis
      proof (cases "labelsTemplate r = None")
        case True
        with M E S Cons.prems assms(2) show ?thesis by (simp add: v1alpha1_matchAnyLoop_Cons)
      next
        case False
        obtain r1 out1 e1 where X: "v1alpha1_executeLabelsTemplate parse r mf ret0 = (r1, out1, e1)"
          by (cases "v1alpha1_executeLabelsTemplate parse r mf ret0") auto
        with v1alpha1_executeLabelsTemplate_compiled [OF False, of parse mf ret0]
        have R: "r1 = r" by simp
        from False obtain tmpl where T: "labelsTemplate r = Some tmpl" by auto
        show ?thesis
        proof (cases e1)
          case None
          with M E S T X R Cons.prems
          have "v1alpha1_matchAnyLoop parse ev r f pre True out1 = (r, Inr (matched, ret))"
            by (simp add: v1alpha1_matchAnyLoop_Cons)
          from Cons.IH [OF this] M E S T X R None show ?thesis
            by (simp add: v1alpha1_matchAnyLoop_Cons)
        next
          case (Some err)
          with M E S T X R Cons.prems show ?thesis
            by (simp add: v1alpha1_matchAnyLoop_Cons)
        qed
      qed
    qed
  qed
qed

lemma matchAnyLoop_none_match:
  "\<forall>a\<in>set alts. MatchAnyElem_match ev a f = (None, None) \<Longrightarrow>
   matchAnyLoop ev r f alts matched ret = Inr (matched, ret)"
  by (induction alts) (simp_all add: matchAnyLoop_Cons)

lemma v1alpha1_matchAnyLoop_none_match:
  "\<forall>a\<in>set alts. MatchAnyElem_match ev a f = (None, None) \<Longrightarrow>
   v1alpha1_matchAnyLoop parse ev r f alts matched ret = (r, Inr (matched, ret))"
  by (induction alts) (simp_all add: v1alpha1_matchAnyLoop_Cons)

text \<open>An error of a matcher that \<open>execute\<close> evaluates is what \<open>execute\<close> returns:
  the matcher \<open>MatchFeatures\<close> behind a \<open>MatchAny\<close> stage that is absent or has
  matched, and the matcher of an alternative that the \<open>MatchAny\<close> loop reaches.\<close>

lemma executeFrom_error:
  "match ev (Rule.MatchFeatures r) f = (None, Some e) \<Longrightarrow> executeFrom ev r f ret = (None, Some e)"
  by (cases "Rule.MatchFeatures r") (simp_all add: executeFrom_def match_def)

lemma ExecuteFrom_error:
  "match ev (Rule.MatchFeatures r) f = (None, Some e) \<Longrightarrow>
   ExecuteFrom parse ev r f ret = ((None, Some e), r)"
  by (cases "Rule.MatchFeatures r") (simp_all add: ExecuteFrom_def match_def)

lemma execute_MatchFeatures_error:
  assumes "MatchAny r = [] \<or> (\<exists>ret. matchAnyLoop ev r f (MatchAny r) False Map.empty = Inr (True, ret))"
    and "match ev (Rule.MatchFeatures r) f = (None, Some e)"
  shows "execute ev r f = (None, Some e)"
  using assms(1) executeFrom_error [OF assms(2)] by (auto simp: execute_unfold)

lemma Execute_MatchFeatures_error:
  assumes "MatchAny r = []
           \<or> (\<exists>ret. v1alpha1_matchAnyLoop parse ev r f (MatchAny r) False Map.empty =
                      (r, Inr (True, ret)))"
    and "match ev (Rule.MatchFeatures r) f = (None, Some e)"
  shows "Execute parse ev r f = ((None, Some e), r)"
  using assms(1) ExecuteFrom_error [OF assms(2)] by (auto simp: Execute_unfold)

lemma execute_MatchAny_error:
  assumes "MatchAny r = apre @ a # apost"
    and "matchAnyLoop ev r f apre False Map.empty = Inr (matched, ret)"
    and "labelsTemplate r = None \<longrightarrow> \<not> matched"
    and "match ev (MatchAnyElem.MatchFeatures a) f = (None, Some e)"
  shows "execute ev r f = (None, Some e)"
proof -
  from assms(4) have "matchAnyLoop ev r f (a # apost) matched ret = Inl e"
    by (simp add: matchAnyLoop_Cons MatchAnyElem_match_def)
  with matchAnyLoop_append [OF assms(2,3), of "a # apost"] assms(1)
  show ?thesis by (simp add: execute_unfold)
qed

lemma Execute_MatchAny_error:
  assumes "MatchAny r = apre @ a # apost"
    and "v1alpha1_matchAnyLoop parse ev r f apre False Map.empty = (r, Inr (matched, ret))"
    and "labelsTemplate r = None \<longrightarrow> \<not> matched"
    and "match ev (MatchAnyElem.MatchFeatures a) f = (None, Some e)"
  shows "Execute parse ev r f = ((None, Some e), r)"
proof -
  from assms(4) have "v1alpha1_matchAnyLoop parse ev r f (a # apost) matched ret = (r, Inl e)"
    by (simp add: v1alpha1_matchAnyLoop_Cons MatchAnyElem_match_def)
  with v1alpha1_matchAnyLoop_append [OF assms(2,3), of "a # apost"] assms(1)
  show ?thesis by (simp add: Execute_unfold)
qed

lemma example_alts:
  "MatchAnyElem_match existsEvaluator altKey1 exampleFeatures =
     (Some [''domain-1'' \<mapsto> [''kf-1'' \<mapsto> MatchedKeys [''key-1'']]], None)"
  "MatchAnyElem_match existsEvaluator altValue1 exampleFeatures =
     (Some [''domain-1'' \<mapsto> [''vf-1'' \<mapsto> MatchedValues [(''key-1'', ''val-1'')]]], None)"
  "MatchAnyElem_match existsEvaluator altKeyNa exampleFeatures = (None, None)"
  "MatchAnyElem_match existsEvaluator altNoDomain exampleFeatures =
     (None, Some (UnknownDomain ''domain-x''))"
  by (simp_all add: MatchAnyElem_match_def altKey1_def altValue1_def altKeyNa_def altNoDomain_def
      match_single example_terms storeMatched_def)

lemma example_matches:
  "match existsEvaluator [termKey1] exampleFeatures =
     (Some [''domain-1'' \<mapsto> [''kf-1'' \<mapsto> MatchedKeys [''key-1'']]], None)"
  "match existsEvaluator [termKeyNa] exampleFeatures = (None, None)"
  by (simp_all add: match_single example_terms storeMatched_def)

section \<open>Unknown domains and features\<close>

lemma lookup_keys_first:
  assumes "SplitN2 (Feature t) (CHR ''.'') = [domain, name]" and "f domain = Some df"
    and "Keys df (ToLower (nameToLower ev) name) = Some k"
  shows "match ev [t] f =
           (case MatchGetKeys ev (MatchExpressions t) k of
              (v, Some e) \<Rightarrow> (None, Some e)
            | (v, None) \<Rightarrow>
                if v \<noteq> []
                then (Some [domain \<mapsto> [ToLower (nameToLower ev) name \<mapsto> MatchedKeys v]], None)
                else (None, None))"
  using assms
  by (auto simp: match_single evalTerm_def resolveFeature_def evaluateOn_def storeMatched_def
      split: prod.splits option.splits)

lemma lookup_values_second:
  assumes "SplitN2 (Feature t) (CHR ''.'') = [domain, name]" and "f domain = Some df"
    and "Keys df (ToLower (nameToLower ev) name) = None"
    and "Values df (ToLower (nameToLower ev) name) = Some k"
  shows "match ev [t] f =
           (case MatchGetValues ev (MatchExpressions t) k of
              (v, Some e) \<Rightarrow> (None, Some e)
            | (v, None) \<Rightarrow>
                if v \<noteq> []
                then (Some [domain \<mapsto> [ToLower (nameToLower ev) name \<mapsto> MatchedValues v]], None)
                else (None, None))"
  using assms
  by (auto simp: match_single evalTerm_def resolveFeature_def evaluateOn_def storeMatched_def
      split: prod.splits option.splits)

lemma lookup_instances_third:
  assumes "SplitN2 (Feature t) (CHR ''.'') = [domain, name]" and "f domain = Some df"
    and "Keys df (ToLower (nameToLower ev) name) = None"
    and "Values df (ToLower (nameToLower ev) name) = None"
    and "Instances df (ToLower (nameToLower ev) name) = Some k"
  shows "match ev [t] f =
           (case MatchGetInstances ev (MatchExpressions t) k of
              (v, Some e) \<Rightarrow> (None, Some e)
            | (v, None) \<Rightarrow>
                if v \<noteq> []
                then (Some [domain \<mapsto> [ToLower (nameToLower ev) name \<mapsto> MatchedInstances v]],
                      None)
                else (None, None))"
  using assms
  by (auto simp: match_single evalTerm_def resolveFeature_def evaluateOn_def storeMatched_def
      split: prod.splits option.splits)

text \<open>
  Claim C4, as stated, fails: the matcher stops at the first term that does not match,
  so a later term naming an absent domain is never looked at, and \<open>match\<close> (and
  \<open>execute\<close>) returns nil without an error.
\<close>

theorem unknown_domain_after_nonmatch_counterexample:
  "exampleFeatures ''domain-x'' = None
   \<and> SplitN2 (Feature termNoDomain) (CHR ''.'') = [''domain-x'', ''kf-1'']
   \<and> match existsEvaluator [termKeyNa, termNoDomain] exampleFeatures = (None, None)
   \<and> execute existsEvaluator (exampleRule\<lparr>MatchFeatures := [termKeyNa, termNoDomain]\<rparr>)
         exampleFeatures = (None, None)"
proof -
  have 1: "exampleFeatures ''domain-x'' = None" by (simp add: exampleFeatures_def)
  have 2: "SplitN2 (Feature termNoDomain) (CHR ''.'') = [''domain-x'', ''kf-1'']"
    by (simp add: termNoDomain_def SplitN2_def)
  have 3: "match existsEvaluator [termKeyNa, termNoDomain] exampleFeatures = (None, None)"
    by (simp add: match_def matchTerms_Cons example_terms)
  have 4: "execute existsEvaluator (exampleRule\<lparr>MatchFeatures := [termKeyNa, termNoDomain]\<rparr>)
             exampleFeatures = (None, None)"
    by (simp add: execute_def exampleRule_def 3)
  from 1 2 3 4 show ?thesis by simp
qed

text \<open>
  Claim C4, amended. Let \<open>t\<close> be a term with the reference \<open>domain.name\<close> that is
  reached, that is, every term before it in the matcher matches at least one element.
  If the snapshot has no such domain, \<open>match\<close> returns the unknown-domain error; if it
  has the domain but the feature name (in lower case) is in none of its three sets,
  \<open>match\<close> returns the feature-not-available error. The feature is looked up in the
  key sets first, then in the value sets, then in the instance sets. A term that follows
  a term matching no element is not evaluated: whatever follows such a term, the matcher
  returns nil without an error. An error of a matcher is what rule execution returns,
  with nil labels, whenever it evaluates that matcher: as the \<open>MatchFeatures\<close> of a
  rule whose \<open>MatchAny\<close> list is empty or has matched, and as a \<open>MatchAny\<close>
  alternative that the loop over the alternatives reaches (the loop over the
  alternatives before it ends without an error and without the \<open>break\<close> of a rule
  that holds no compiled template). This holds for \<open>execute\<close> and for \<open>Execute\<close>.
\<close>

theorem reached_term_unknown_domain_or_feature:
  assumes "\<forall>p\<in>set pre. \<exists>k. termOutcome ev f p = Inr k \<and> 0 < k"
    and "SplitN2 (Feature t) (CHR ''.'') = [domain, name]"
  shows "(f domain = None \<longrightarrow>
            match ev (pre @ t # post) f = (None, Some (UnknownDomain domain)))
       \<and> (\<forall>df. f domain = Some df \<and> Keys df (ToLower (nameToLower ev) name) = None
                \<and> Values df (ToLower (nameToLower ev) name) = None
                \<and> Instances df (ToLower (nameToLower ev) name) = None \<longrightarrow>
            match ev (pre @ t # post) f =
              (None, Some (FeatureNotAvailable (ToLower (nameToLower ev) name) domain)))
       \<and> (\<forall>df k. f domain = Some df \<and> Keys df (ToLower (nameToLower ev) name) = Some k \<longrightarrow>
            match ev [t] f =
              (case MatchGetKeys ev (MatchExpressions t) k of
                 (v, Some e) \<Rightarrow> (None, Some e)
               | (v, None) \<Rightarrow>
                   if v \<noteq> []
                   then (Some [domain \<mapsto> [ToLower (nameToLower ev) name \<mapsto> MatchedKeys v]],
                         None)
                   else (None, None)))
       \<and> (\<forall>df k. f domain = Some df \<and> Keys df (ToLower (nameToLower ev) name) = None
                \<and> Values df (ToLower (nameToLower ev) name) = Some k \<longrightarrow>
            match ev [t] f =
              (case MatchGetValues ev (MatchExpressions t) k of
                 (v, Some e) \<Rightarrow> (None, Some e)
               | (v, None) \<Rightarrow>
                   if v \<noteq> []
                   then (Some [domain \<mapsto> [ToLower (nameToLower ev) name \<mapsto> MatchedValues v]],
                         None)
                   else (None, None)))
       \<and> (\<forall>df k. f domain = Some df \<and> Keys df (ToLower (nameToLower ev) name) = None
                \<and> Values df (ToLower (nameToLower ev) name) = None
                \<and> Instances df (ToLower (nameToLower ev) name) = Some k \<longrightarrow>
            match ev [t] f =
              (case MatchGetInstances ev (MatchExpressions t) k of
                 (v, Some e) \<Rightarrow> (None, Some e)
               | (v, None) \<Rightarrow>
                   if v \<noteq> []
                   then (Some [domain \<mapsto> [ToLower (nameToLower ev) name \<mapsto> MatchedInstances v]],
                         None)
                   else (None, None)))
       \<and> (\<forall>z rest. termOutcome ev f z = Inr 0 \<longrightarrow>
            match ev (pre @ z # rest) f = (None, None))
       \<and> (\<forall>r e. match ev (pre @ t # post) f = (None, Some e)
                \<and> Rule.MatchFeatures r = pre @ t # post
                \<and> (MatchAny r = []
                   \<or> (\<exists>ret. matchAnyLoop ev r f (MatchAny r) False Map.empty = Inr (True, ret)))
                \<longrightarrow> execute ev r f = (None, Some e))
       \<and> (\<forall>r e. match ev (pre @ t # post) f = (None, Some e)
                \<and> Rule.MatchFeatures r = pre @ t # post
                \<and> (MatchAny r = []
                   \<or> (\<exists>ret. v1alpha1_matchAnyLoop parse ev r f (MatchAny r) False Map.empty =
                              (r, Inr (True, ret))))
                \<longrightarrow> fst (Execute parse ev r f) = (None, Some e))
       \<and> (\<forall>r e apre a apost matched ret.
              match ev (pre @ t # post) f = (None, Some e)
              \<and> MatchAny r = apre @ a # apost \<and> MatchAnyElem.MatchFeatures a = pre @ t # post
              \<and> matchAnyLoop ev r f apre False Map.empty = Inr (matched, ret)
              \<and> (labelsTemplate r = None \<longrightarrow> \<not> matched)
              \<longrightarrow> execute ev r f = (None, Some e))
       \<and> (\<forall>r e apre a apost matched ret.
              match ev (pre @ t # post) f = (None, Some e)
              \<and> MatchAny r = apre @ a # apost \<and> MatchAnyElem.MatchFeatures a = pre @ t # post
              \<and> v1alpha1_matchAnyLoop parse ev r f apre False Map.empty = (r, Inr (matched, ret))
              \<and> (labelsTemplate r = None \<longrightarrow> \<not> matched)
              \<longrightarrow> fst (Execute parse ev r f) = (None, Some e))"
proof -
  from assms(1) have reached: "\<forall>p\<in>set pre. fst (match ev [p] f) \<noteq> None"
    unfolding outcome_positive_iff .
  have c1: "f domain = None \<longrightarrow>
            match ev (pre @ t # post) f = (None, Some (UnknownDomain domain))"
  proof
    assume "f domain = None"
    with assms(2) have "evalTerm ev f t = Inl (UnknownDomain domain)"
      by (simp add: evalTerm_def resolveFeature_def)
    with reached show "match ev (pre @ t # post) f = (None, Some (UnknownDomain domain))"
      by (rule matchTerms_reached_error)
  qed
  have c2: "\<forall>df. f domain = Some df \<and> Keys df (ToLower (nameToLower ev) name) = None
                \<and> Values df (ToLower (nameToLower ev) name) = None
                \<and> Instances df (ToLower (nameToLower ev) name) = None \<longrightarrow>
            match ev (pre @ t # post) f =
              (None, Some (FeatureNotAvailable (ToLower (nameToLower ev) name) domain))"
  proof (intro allI impI)
    fix df
    assume "f domain = Some df \<and> Keys df (ToLower (nameToLower ev) name) = None
            \<and> Values df (ToLower (nameToLower ev) name) = None
            \<and> Instances df (ToLower (nameToLower ev) name) = None"
    with assms(2)
    have "evalTerm ev f t = Inl (FeatureNotAvailable (ToLower (nameToLower ev) name) domain)"
      by (simp add: evalTerm_def resolveFeature_def)
    with reached
    show "match ev (pre @ t # post) f =
            (None, Some (FeatureNotAvailable (ToLower (nameToLower ev) name) domain))"
      by (rule matchTerms_reached_error)
  qed
  have c3: "\<forall>df k. f domain = Some df \<and> Keys df (ToLower (nameToLower ev) name) = Some k \<longrightarrow>
            match ev [t] f =
              (case MatchGetKeys ev (MatchExpressions t) k of
                 (v, Some e) \<Rightarrow> (None, Some e)
               | (v, None) \<Rightarrow>
                   if v \<noteq> []
                   then (Some [domain \<mapsto> [ToLower (nameToLower ev) name \<mapsto> MatchedKeys v]],
                         None)
                   else (None, None))"
    using lookup_keys_first [OF assms(2)] by blast
  have c4: "\<forall>df k. f domain = Some df \<and> Keys df (ToLower (nameToLower ev) name) = None
                \<and> Values df (ToLower (nameToLower ev) name) = Some k \<longrightarrow>
            match ev [t] f =
              (case MatchGetValues ev (MatchExpressions t) k of
                 (v, Some e) \<Rightarrow> (None, Some e)
               | (v, None) \<Rightarrow>
                   if v \<noteq> []
                   then (Some [domain \<mapsto> [ToLower (nameToLower ev) name \<mapsto> MatchedValues v]],
                         None)
                   else (None, None))"
    using lookup_values_second [OF assms(2)] by blast
  have c5: "\<forall>df k. f domain = Some df \<and> Keys df (ToLower (nameToLower ev) name) = None
                \<and> Values df (ToLower (nameToLower ev) name) = None
                \<and> Instances df (ToLower (nameToLower ev) name) = Some k \<longrightarrow>
            match ev [t] f =
              (case MatchGetInstances ev (MatchExpressions t) k of
                 (v, Some e) \<Rightarrow> (None, Some e)
               | (v, None) \<Rightarrow>
                   if v \<noteq> []
                   then (Some [domain \<mapsto> [ToLower (nameToLower ev) name \<mapsto> MatchedInstances v]],
                         None)
                   else (None, None))"
    using lookup_instances_third [OF assms(2)] by blast
  have c6: "\<forall>z rest. termOutcome ev f z = Inr 0 \<longrightarrow>
            match ev (pre @ z # rest) f = (None, None)"
    unfolding outcome_zero_iff using match_reached_nonmatch [OF reached] by blast
  have c7: "\<forall>r e. match ev (pre @ t # post) f = (None, Some e)
                \<and> Rule.MatchFeatures r = pre @ t # post
                \<and> (MatchAny r = []
                   \<or> (\<exists>ret. matchAnyLoop ev r f (MatchAny r) False Map.empty = Inr (True, ret)))
                \<longrightarrow> execute ev r f = (None, Some e)"
  proof (intro allI impI)
    fix r :: "'a Rule" and e
    assume A: "match ev (pre @ t # post) f = (None, Some e)
                \<and> Rule.MatchFeatures r = pre @ t # post
                \<and> (MatchAny r = []
                   \<or> (\<exists>ret. matchAnyLoop ev r f (MatchAny r) False Map.empty = Inr (True, ret)))"
    then have "match ev (Rule.MatchFeatures r) f = (None, Some e)" by simp
    with A show "execute ev r f = (None, Some e)"
      using execute_MatchFeatures_error [of r ev f e] by blast
  qed
  have c8: "\<forall>r e. match ev (pre @ t # post) f = (None, Some e)
                \<and> Rule.MatchFeatures r = pre @ t # post
                \<and> (MatchAny r = []
                   \<or> (\<exists>ret. v1alpha1_matchAnyLoop parse ev r f (MatchAny r) False Map.empty =
                              (r, Inr (True, ret))))
                \<longrightarrow> fst (Execute parse ev r f) = (None, Some e)"
  proof (intro allI impI)
    fix r :: "'a Rule" and e
    assume A: "match ev (pre @ t # post) f = (None, Some e)
                \<and> Rule.MatchFeatures r = pre @ t # post
                \<and> (MatchAny r = []
                   \<or> (\<exists>ret. v1alpha1_matchAnyLoop parse ev r f (MatchAny r) False Map.empty =
                              (r, Inr (True, ret))))"
    then have "match ev (Rule.MatchFeatures r) f = (None, Some e)" by simp
    with A have "Execute parse ev r f = ((None, Some e), r)"
      using Execute_MatchFeatures_error [of r parse ev f e] by blast
    then show "fst (Execute parse ev r f) = (None, Some e)" by simp
  qed
  have c9: "\<forall>r e apre a apost matched ret.
              match ev (pre @ t # post) f = (None, Some e)
              \<and> MatchAny r = apre @ a # apost \<and> MatchAnyElem.MatchFeatures a = pre @ t # post
              \<and> matchAnyLoop ev r f apre False Map.empty = Inr (matched, ret)
              \<and> (labelsTemplate r = None \<longrightarrow> \<not> matched)
              \<longrightarrow> execute ev r f = (None, Some e)"
  proof (intro allI impI)
    fix r :: "'a Rule" and e apre a apost matched ret
    assume A: "match ev (pre @ t # post) f = (None, Some e)
              \<and> MatchAny r = apre @ a # apost \<and> MatchAnyElem.MatchFeatures a = pre @ t # post
              \<and> matchAnyLoop ev r f apre False Map.empty = Inr (matched, ret)
              \<and> (labelsTemplate r = None \<longrightarrow> \<not> matched)"
    then have 1: "MatchAny r = apre @ a # apost"
      and 2: "matchAnyLoop ev r f apre False Map.empty = Inr (matched, ret)"
      and 3: "labelsTemplate r = None \<longrightarrow> \<not> matched"
      and 4: "match ev (MatchAnyElem.MatchFeatures a) f = (None, Some e)"
      by simp_all
    from 1 2 3 4 show "execute ev r f = (None, Some e)" by (rule execute_MatchAny_error)
  qed
  have c10: "\<forall>r e apre a apost matched ret.
              match ev (pre @ t # post) f = (None, Some e)
              \<and> MatchAny r = apre @ a # apost \<and> MatchAnyElem.MatchFeatures a = pre @ t # post
              \<and> v1alpha1_matchAnyLoop parse ev r f apre False Map.empty = (r, Inr (matched, ret))
              \<and> (labelsTemplate r = None \<longrightarrow> \<not> matched)
              \<longrightarrow> fst (Execute parse ev r f) = (None, Some e)"
  proof (intro allI impI)
    fix r :: "'a Rule" and e apre a apost matched ret
    assume A: "match ev (pre @ t # post) f = (None, Some e)
              \<and> MatchAny r = apre @ a # apost \<and> MatchAnyElem.MatchFeatures a = pre @ t # post
              \<and> v1alpha1_matchAnyLoop parse ev r f apre False Map.empty = (r, Inr (matched, ret))
              \<and> (labelsTemplate r = None \<longrightarrow> \<not> matched)"
    then have 1: "MatchAny r = apre @ a # apost"
      and 2: "v1alpha1_matchAnyLoop parse ev r f apre False Map.empty = (r, Inr (matched, ret))"
      and 3: "labelsTemplate r = None \<longrightarrow> \<not> matched"
      and 4: "match ev (MatchAnyElem.MatchFeatures a) f = (None, Some e)"
      by simp_all
    from 1 2 3 4 have "Execute parse ev r f = ((None, Some e), r)"
      by (rule Execute_MatchAny_error)
    then show "fst (Execute parse ev r f) = (None, Some e)" by simp
  qed
  from c1 c2 c3 c4 c5 c6 c7 c8 c9 c10 show ?thesis by (intro conjI)
qed

text \<open>The witness: a term with an unknown domain and a term with an unknown feature,
  each behind a matching term; a term with an unknown domain behind a term that matches
  no element; a rule with the failing matcher as \<open>MatchFeatures\<close>, without \<open>MatchAny\<close>
  and behind a \<open>MatchAny\<close> that matches, and a rule with the failing matcher as the
  second of three alternatives, behind an alternative that does not match; and a term
  whose feature is a value set.\<close>

theorem reached_term_unknown_domain_or_feature_witness:
  "termOutcome existsEvaluator exampleFeatures termKey1 = Inr 1
   \<and> termOutcome existsEvaluator exampleFeatures termKeyNa = Inr 0
   \<and> SplitN2 (Feature termNoDomain) (CHR ''.'') = [''domain-x'', ''kf-1'']
   \<and> exampleFeatures ''domain-x'' = None
   \<and> match existsEvaluator [termKey1, termNoDomain, termValue1] exampleFeatures =
       (None, Some (UnknownDomain ''domain-x''))
   \<and> match existsEvaluator [termKey1, termKeyNa, termNoDomain] exampleFeatures = (None, None)
   \<and> execute existsEvaluator
         (exampleRule\<lparr>MatchFeatures := [termKey1, termNoDomain, termValue1]\<rparr>) exampleFeatures =
       (None, Some (UnknownDomain ''domain-x''))
   \<and> fst (Execute exampleParse existsEvaluator
         (exampleRule\<lparr>MatchFeatures := [termKey1, termNoDomain, termValue1]\<rparr>) exampleFeatures) =
       (None, Some (UnknownDomain ''domain-x''))
   \<and> execute existsEvaluator
         (exampleRule\<lparr>MatchFeatures := [termKey1, termNoDomain, termValue1],
                      MatchAny := [altKeyNa, altKey1]\<rparr>) exampleFeatures =
       (None, Some (UnknownDomain ''domain-x''))
   \<and> fst (Execute exampleParse existsEvaluator
         (exampleRule\<lparr>MatchFeatures := [termKey1, termNoDomain, termValue1],
                      MatchAny := [altKeyNa, altKey1]\<rparr>) exampleFeatures) =
       (None, Some (UnknownDomain ''domain-x''))
   \<and> execute existsEvaluator
         (exampleRule\<lparr>MatchAny :=
            [altKeyNa, \<lparr>MatchAnyElem.MatchFeatures = [termKey1, termNoDomain, termValue1]\<rparr>,
             altKey1]\<rparr>) exampleFeatures =
       (None, Some (UnknownDomain ''domain-x''))
   \<and> fst (Execute exampleParse existsEvaluator
         (exampleRule\<lparr>MatchAny :=
            [altKeyNa, \<lparr>MatchAnyElem.MatchFeatures = [termKey1, termNoDomain, termValue1]\<rparr>,
             altKey1]\<rparr>) exampleFeatures) =
       (None, Some (UnknownDomain ''domain-x''))
   \<and> SplitN2 (Feature termNoFeature) (CHR ''.'') = [''domain-1'', ''nf-1'']
   \<and> match existsEvaluator [termKey1, termNoFeature] exampleFeatures =
       (None, Some (FeatureNotAvailable ''nf-1'' ''domain-1''))
   \<and> SplitN2 (Feature termValue1) (CHR ''.'') = [''domain-1'', ''vf-1'']
   \<and> match existsEvaluator [termValue1] exampleFeatures =
       (Some [''domain-1'' \<mapsto> [''vf-1'' \<mapsto> MatchedValues [(''key-1'', ''val-1'')]]], None)"
proof -
  let ?m = "[termKey1, termNoDomain, termValue1]"
  let ?r1 = "exampleRule\<lparr>MatchFeatures := ?m\<rparr>"
  let ?r2 = "exampleRule\<lparr>MatchFeatures := ?m, MatchAny := [altKeyNa, altKey1]\<rparr>"
  let ?a = "\<lparr>MatchAnyElem.MatchFeatures = ?m\<rparr>"
  let ?r3 = "exampleRule\<lparr>MatchAny := [altKeyNa, ?a, altKey1]\<rparr>"
  have o: "termOutcome existsEvaluator exampleFeatures termKey1 = Inr 1
         \<and> termOutcome existsEvaluator exampleFeatures termKeyNa = Inr 0"
    by (simp add: example_outcomes)
  have h0: "\<forall>p\<in>set []. \<exists>k. termOutcome existsEvaluator exampleFeatures p = Inr k \<and> 0 < k"
    by simp
  have h1: "\<forall>p\<in>set [termKey1].
              \<exists>k. termOutcome existsEvaluator exampleFeatures p = Inr k \<and> 0 < k"
    by (simp add: example_outcomes)
  have s1: "SplitN2 (Feature termNoDomain) (CHR ''.'') = [''domain-x'', ''kf-1'']"
    by (simp add: example_splits)
  have s2: "SplitN2 (Feature termNoFeature) (CHR ''.'') = [''domain-1'', ''nf-1'']"
    by (simp add: example_splits)
  have s3: "SplitN2 (Feature termValue1) (CHR ''.'') = [''domain-1'', ''vf-1'']"
    by (simp add: example_splits)
  have d: "exampleFeatures ''domain-x'' = None" by (simp add: exampleFeatures_def)
  note T1 = reached_term_unknown_domain_or_feature
    [OF h1 s1, where post = "[termValue1]" and parse = exampleParse]
  note T2 = reached_term_unknown_domain_or_feature
    [OF h1 s2, where post = "[]" and parse = exampleParse]
  note T3 = reached_term_unknown_domain_or_feature
    [OF h0 s3, where post = "[]" and parse = exampleParse]
  note T1_domain = T1 [THEN conjunct1]
  note T1_skip = T1 [THEN conjunct2, THEN conjunct2, THEN conjunct2, THEN conjunct2, THEN conjunct2, THEN conjunct1, rule_format]
  note T1_execute = T1 [THEN conjunct2, THEN conjunct2, THEN conjunct2, THEN conjunct2, THEN conjunct2, THEN conjunct2, THEN conjunct1, rule_format]
  note T1_Execute = T1 [THEN conjunct2, THEN conjunct2, THEN conjunct2, THEN conjunct2, THEN conjunct2, THEN conjunct2, THEN conjunct2, THEN conjunct1, rule_format]
  note T1_alt_execute = T1 [THEN conjunct2, THEN conjunct2, THEN conjunct2, THEN conjunct2, THEN conjunct2, THEN conjunct2, THEN conjunct2, THEN conjunct2, THEN conjunct1, rule_format]
  note T1_alt_Execute = T1 [THEN conjunct2, THEN conjunct2, THEN conjunct2, THEN conjunct2, THEN conjunct2, THEN conjunct2, THEN conjunct2, THEN conjunct2, THEN conjunct2, rule_format]
  note T2_feature = T2 [THEN conjunct2, THEN conjunct1, rule_format]
  note T3_values = T3 [THEN conjunct2, THEN conjunct2, THEN conjunct2, THEN conjunct1, rule_format]
  from T1_domain d have m: "match existsEvaluator ([termKey1] @ termNoDomain # [termValue1])
                       exampleFeatures = (None, Some (UnknownDomain ''domain-x''))"
    by simp
  from T1_skip [of termKeyNa "[termNoDomain]"] o have z: "match existsEvaluator ([termKey1] @ termKeyNa # [termNoDomain])
                       exampleFeatures = (None, None)"
    by simp
  have l2: "matchAnyLoop existsEvaluator ?r2 exampleFeatures (MatchAny ?r2) False Map.empty =
              Inr (True, Map.empty)"
    by (simp add: matchAnyLoop_Cons example_alts exampleRule_def)
  have v2: "v1alpha1_matchAnyLoop exampleParse existsEvaluator ?r2 exampleFeatures (MatchAny ?r2)
              False Map.empty = (?r2, Inr (True, Map.empty))"
    by (simp add: v1alpha1_matchAnyLoop_Cons example_alts exampleRule_def)
  have l3: "matchAnyLoop existsEvaluator ?r3 exampleFeatures [altKeyNa] False Map.empty =
              Inr (False, Map.empty)"
    by (simp add: matchAnyLoop_Cons example_alts)
  have v3: "v1alpha1_matchAnyLoop exampleParse existsEvaluator ?r3 exampleFeatures [altKeyNa]
              False Map.empty = (?r3, Inr (False, Map.empty))"
    by (simp add: v1alpha1_matchAnyLoop_Cons example_alts)
  have p1: "Rule.MatchFeatures ?r1 = [termKey1] @ termNoDomain # [termValue1]
          \<and> MatchAny ?r1 = []"
    by (simp add: exampleRule_def)
  have p2: "Rule.MatchFeatures ?r2 = [termKey1] @ termNoDomain # [termValue1]" by simp
  have p3: "MatchAny ?r3 = [altKeyNa] @ ?a # [altKey1]
          \<and> MatchAnyElem.MatchFeatures ?a = [termKey1] @ termNoDomain # [termValue1]"
    by simp
  from T1_execute [of _ ?r1] m p1 have e1: "execute existsEvaluator ?r1 exampleFeatures =
                           (None, Some (UnknownDomain ''domain-x''))"
    by blast
  from T1_Execute [of _ ?r1] m p1 have x1: "fst (Execute exampleParse existsEvaluator ?r1 exampleFeatures) =
                           (None, Some (UnknownDomain ''domain-x''))"
    by blast
  from T1_execute [of _ ?r2] m p2 l2 have e2: "execute existsEvaluator ?r2 exampleFeatures =
                           (None, Some (UnknownDomain ''domain-x''))"
    by blast
  from T1_Execute [of _ ?r2] m p2 v2 have x2: "fst (Execute exampleParse existsEvaluator ?r2 exampleFeatures) =
                           (None, Some (UnknownDomain ''domain-x''))"
    by blast
  from T1_alt_execute [of _ ?r3 "[altKeyNa]" ?a "[altKey1]" False Map.empty] m p3 l3 have e3: "execute existsEvaluator ?r3 exampleFeatures =
                           (None, Some (UnknownDomain ''domain-x''))"
    by blast
  from T1_alt_Execute [of _ ?r3 "[altKeyNa]" ?a "[altKey1]" False Map.empty] m p3 v3 have x3: "fst (Execute exampleParse existsEvaluator ?r3 exampleFeatures) =
                           (None, Some (UnknownDomain ''domain-x''))"
    by blast
  have f2: "exampleFeatures ''domain-1'' = Some (the (exampleFeatures ''domain-1''))
          \<and> Keys (the (exampleFeatures ''domain-1''))
              (ToLower (nameToLower existsEvaluator) ''nf-1'') = None
          \<and> Values (the (exampleFeatures ''domain-1''))
              (ToLower (nameToLower existsEvaluator) ''nf-1'') = None
          \<and> Instances (the (exampleFeatures ''domain-1''))
              (ToLower (nameToLower existsEvaluator) ''nf-1'') = None
          \<and> ToLower (nameToLower existsEvaluator) ''nf-1'' = ''nf-1''"
    by (simp add: ToLower_examples exampleFeatures_def)
  with T2_feature [of "the (exampleFeatures ''domain-1'')"] have n: "match existsEvaluator ([termKey1] @ termNoFeature # []) exampleFeatures =
                     (None, Some (FeatureNotAvailable ''nf-1'' ''domain-1''))"
    by (auto simp del: fun_upd_apply)
  have f3: "exampleFeatures ''domain-1'' = Some (the (exampleFeatures ''domain-1''))
          \<and> Keys (the (exampleFeatures ''domain-1''))
              (ToLower (nameToLower existsEvaluator) ''vf-1'') = None
          \<and> Values (the (exampleFeatures ''domain-1''))
              (ToLower (nameToLower existsEvaluator) ''vf-1'') = Some [''key-1'' \<mapsto> ''val-1'']
          \<and> ToLower (nameToLower existsEvaluator) ''vf-1'' = ''vf-1''
          \<and> MatchGetValues existsEvaluator (MatchExpressions termValue1)
              [''key-1'' \<mapsto> ''val-1''] = ([(''key-1'', ''val-1'')], None)"
    by (simp add: ToLower_examples exampleFeatures_def existsEvaluator_def example_exprs)
  with T3_values [of "the (exampleFeatures ''domain-1'')" "[''key-1'' \<mapsto> ''val-1'']"] have v: "match existsEvaluator [termValue1] exampleFeatures =
       (Some [''domain-1'' \<mapsto> [''vf-1'' \<mapsto> MatchedValues [(''key-1'', ''val-1'')]]], None)"
    by (auto simp del: fun_upd_apply)
  from o s1 d m z e1 x1 e2 x2 e3 x3 s2 n s3 v show ?thesis by simp
qed

section \<open>Properties of the label expansion\<close>

lemma splitLabels_spec:
  "splitLabels items out =
     writeLabels out (map (specLabel ''true'') (filter (\<lambda>l. l \<noteq> []) (map TrimSpace items)))"
  by (induction items arbitrary: out)
     (simp_all add: writeLabels_def specLabel_def SplitN2_def Let_def)

lemma expandMapLoop_spec:
  "expandMapLoop items out =
     writeLabels out (map (specLabel []) (filter (\<lambda>l. l \<noteq> []) (map TrimSpace items)))"
  by (induction items arbitrary: out)
     (simp_all add: writeLabels_def specLabel_def SplitN2_def Let_def)

lemma TrimSpace_examples:
  "TrimSpace [] = []" "TrimSpace ''  '' = []" "TrimSpace ''a=1'' = ''a=1''"
  "TrimSpace ''b'' = ''b''" "TrimSpace ''x=y'' = ''x=y''"
  "TrimSpace ''label-1=from-template'' = ''label-1=from-template''"
  "TrimSpace ''last=keys'' = ''last=keys''" "TrimSpace ''keys'' = ''keys''"
  "TrimSpace ''last=values'' = ''last=values''" "TrimSpace ''values'' = ''values''"
  by code_simp+

text \<open>White space that is not ASCII is trimmed as well: a line that is the next-line
  character U+0085, and a label between a no-break space U+00A0 and an ideographic space
  U+3000.\<close>

lemma TrimSpace_unicode:
  "TrimSpace [CHR 0xC2, CHR 0x85] = []"
  "TrimSpace ([CHR 0xC2, CHR 0xA0] @ ''a=1'' @ [CHR 0xE3, CHR 0x80, CHR 0x80]) = ''a=1''"
  by code_simp+

lemma Split_exampleOutput:
  "Split exampleOutput (CHR 0x0A) = [''a=1'', ''b'', [], ''  '', []]"
  by (simp add: exampleOutput_def)

lemma specLabels_exampleOutput:
  "specLabels dflt exampleOutput = [(''a'', ''1''), (''b'', dflt)]"
  by (simp add: specLabels_def Split_exampleOutput TrimSpace_examples specLabel_def)

text \<open>
  Claim C2, as stated, fails for \<open>templateHelper.expandMap\<close>: a line without \<open>=\<close>
  gets the empty string as its value, not \<open>true\<close>, so the example output does not give
  the map of the claim.
\<close>

theorem expandMap_no_equals_counterexample:
  "expandMap (textTemplate exampleOutput) Map.empty = (Some [''a'' \<mapsto> ''1'', ''b'' \<mapsto> []], None)
   \<and> fst (expandMap (textTemplate exampleOutput) Map.empty) \<noteq> Some [''a'' \<mapsto> ''1'', ''b'' \<mapsto> ''true'']"
proof -
  have 1: "expandMap (textTemplate exampleOutput) Map.empty = (Some [''a'' \<mapsto> ''1'', ''b'' \<mapsto> []], None)"
    by (simp add: expandMap_def templateHelper_execute_def textTemplate_def expandMapLoop_spec
        specLabels_exampleOutput [unfolded specLabels_def] writeLabels_def)
  have "[''a'' \<mapsto> ''1'', ''b'' \<mapsto> []] ''b'' \<noteq> [''a'' \<mapsto> ''1'', ''b'' \<mapsto> ''true''] ''b''"
    by simp
  then have "[''a'' \<mapsto> ''1'', ''b'' \<mapsto> []] \<noteq> [''a'' \<mapsto> ''1'', ''b'' \<mapsto> ''true'']"
    by metis
  with 1 show ?thesis by simp
qed

text \<open>
  Claim C2, amended. Both expanders split the template output on newlines, trim the
  white space (that of Unicode, as \<open>strings.TrimSpace\<close> does) from both ends of each
  line, drop the lines that are then empty, and split each remaining line once on its
  first \<open>=\<close> into key and value, writing the labels in order. For a line without \<open>=\<close>
  the custom source's \<open>Rule.executeLabelsTemplate\<close> writes the value \<open>true\<close> and
  \<open>templateHelper.expandMap\<close> writes the empty string: the example output gives the map
  \<open>a=1, b=true\<close> from the first and \<open>a=1, b=\<close> from the second. A line that is
  the white space character U+0085 gives no label.
\<close>

theorem label_expansion_splits_lines:
  "splitLabels (Split s (CHR 0x0A)) out = writeLabels out (specLabels ''true'' s)
   \<and> expandMapLoop (Split s (CHR 0x0A)) out = writeLabels out (specLabels [] s)
   \<and> (labelsTemplate r = Some tmpl \<and> tmpl inp = Inr s \<longrightarrow>
        executeLabelsTemplate r inp out = (writeLabels out (specLabels ''true'' s), None))
   \<and> (h inp = Inr s \<longrightarrow>
        expandMap h inp = (Some (writeLabels Map.empty (specLabels [] s)), None))
   \<and> specLabels ''true'' exampleOutput = [(''a'', ''1''), (''b'', ''true'')]
   \<and> specLabels [] exampleOutput = [(''a'', ''1''), (''b'', [])]
   \<and> writeLabels Map.empty [(''a'', ''1''), (''b'', ''true'')] = [''a'' \<mapsto> ''1'', ''b'' \<mapsto> ''true'']
   \<and> writeLabels Map.empty [(''a'', ''1''), (''b'', [])] = [''a'' \<mapsto> ''1'', ''b'' \<mapsto> []]
   \<and> splitLabels (Split [CHR 0xC2, CHR 0x85] (CHR 0x0A)) out = out
   \<and> expandMapLoop (Split [CHR 0xC2, CHR 0x85] (CHR 0x0A)) out = out"
proof (intro conjI impI)
  show 1: "splitLabels (Split s (CHR 0x0A)) out = writeLabels out (specLabels ''true'' s)"
    by (simp add: splitLabels_spec specLabels_def)
  show 2: "expandMapLoop (Split s (CHR 0x0A)) out = writeLabels out (specLabels [] s)" for out
    by (simp add: expandMapLoop_spec specLabels_def)
  show "executeLabelsTemplate r inp out = (writeLabels out (specLabels ''true'' s), None)"
    if "labelsTemplate r = Some tmpl \<and> tmpl inp = Inr s"
    using that by (simp add: executeLabelsTemplate_def 1)
  show "expandMap h inp = (Some (writeLabels Map.empty (specLabels [] s)), None)"
    if "h inp = Inr s"
    using that by (simp add: expandMap_def templateHelper_execute_def 2)
  show "specLabels ''true'' exampleOutput = [(''a'', ''1''), (''b'', ''true'')]"
    by (rule specLabels_exampleOutput)
  show "specLabels [] exampleOutput = [(''a'', ''1''), (''b'', [])]"
    by (rule specLabels_exampleOutput)
  show "writeLabels Map.empty [(''a'', ''1''), (''b'', ''true'')] = [''a'' \<mapsto> ''1'', ''b'' \<mapsto> ''true'']"
    by (simp add: writeLabels_def)
  show "writeLabels Map.empty [(''a'', ''1''), (''b'', [])] = [''a'' \<mapsto> ''1'', ''b'' \<mapsto> []]"
    by (simp add: writeLabels_def)
  show "splitLabels (Split [CHR 0xC2, CHR 0x85] (CHR 0x0A)) out = out"
    by (simp add: TrimSpace_unicode)
  show "expandMapLoop (Split [CHR 0xC2, CHR 0x85] (CHR 0x0A)) out = out"
    by (simp add: TrimSpace_unicode)
qed

theorem label_expansion_splits_lines_witness:
  "labelsTemplate (exampleRule\<lparr>labelsTemplate := Some (textTemplate exampleOutput)\<rparr>) =
     Some (textTemplate exampleOutput)
   \<and> textTemplate exampleOutput Map.empty = Inr exampleOutput
   \<and> executeLabelsTemplate (exampleRule\<lparr>labelsTemplate := Some (textTemplate exampleOutput)\<rparr>)
        Map.empty Map.empty = ([''a'' \<mapsto> ''1'', ''b'' \<mapsto> ''true''], None)
   \<and> expandMap (textTemplate exampleOutput) Map.empty = (Some [''a'' \<mapsto> ''1'', ''b'' \<mapsto> []], None)"
proof -
  have h1: "labelsTemplate (exampleRule\<lparr>labelsTemplate := Some (textTemplate exampleOutput)\<rparr>) =
     Some (textTemplate exampleOutput)" by simp
  have h2: "textTemplate exampleOutput Map.empty = Inr exampleOutput"
    by (simp add: textTemplate_def)
  note T = label_expansion_splits_lines
    [where r = "exampleRule\<lparr>labelsTemplate := Some (textTemplate exampleOutput)\<rparr>"
       and tmpl = "textTemplate exampleOutput" and h = "textTemplate exampleOutput"
       and inp = Map.empty and s = exampleOutput and out = Map.empty]
  from T h1 h2 show ?thesis by simp
qed

section \<open>Properties of Rule.execute and Rule.Execute\<close>

lemma executeFrom_shape:
  "(\<exists>e. executeFrom ev r f ret = (None, e))
   \<or> (\<exists>ret'. executeFrom ev r f ret = (Some (ret' ++ Labels r), None))"
  unfolding executeFrom_def
  by (auto split: sum.splits prod.splits option.splits)

lemma execute_shape:
  "(\<exists>e. execute ev r f = (None, e)) \<or> (\<exists>ret. execute ev r f = (Some (ret ++ Labels r), None))"
proof (cases "MatchAny r = []")
  case True
  then show ?thesis using executeFrom_shape [of ev r f Map.empty] by (simp add: execute_unfold)
next
  case False
  show ?thesis
  proof (cases "matchAnyLoop ev r f (MatchAny r) False Map.empty")
    case (Inl err)
    with False show ?thesis by (simp add: execute_unfold)
  next
    case (Inr p)
    obtain matched ret' where "p = (matched, ret')" by (cases p) auto
    with Inr False show ?thesis
      using executeFrom_shape [of ev r f ret'] by (simp add: execute_unfold)
  qed
qed

lemma v1alpha1_executeLabelsTemplate_rule:
  "fst (v1alpha1_executeLabelsTemplate parse r m out) = r
   \<or> (\<exists>t. fst (v1alpha1_executeLabelsTemplate parse r m out) = r\<lparr>labelsTemplate := Some t\<rparr>)"
  unfolding v1alpha1_executeLabelsTemplate_def
  by (auto split: if_splits sum.splits prod.splits option.splits)

lemma v1alpha1_executeLabelsTemplate_Labels:
  "v1alpha1_executeLabelsTemplate parse r m out = (r', res) \<Longrightarrow>
   Labels r' = Labels r \<and> Rule.MatchFeatures r' = Rule.MatchFeatures r"
  using v1alpha1_executeLabelsTemplate_rule [of parse r m out] by auto

lemma v1alpha1_matchAnyLoop_Labels:
  "v1alpha1_matchAnyLoop parse ev r f alts matched ret = (r', res) \<Longrightarrow>
   Labels r' = Labels r \<and> Rule.MatchFeatures r' = Rule.MatchFeatures r"
proof (induction alts arbitrary: r matched ret)
  case Nil
  then show ?case by simp
next
  case (Cons a alts)
  obtain m e where M: "MatchAnyElem_match ev a f = (m, e)"
    by (cases "MatchAnyElem_match ev a f") auto
  show ?case
  proof (cases e)
    case (Some err)
    with M Cons.prems show ?thesis by (cases m) (simp_all add: v1alpha1_matchAnyLoop_Cons)
  next
    case None
    note E = this
    show ?thesis
    proof (cases m)
      case None
      with M E Cons.prems have "v1alpha1_matchAnyLoop parse ev r f alts matched ret = (r', res)"
        by (simp add: v1alpha1_matchAnyLoop_Cons)
      then show ?thesis by (rule Cons.IH)
    next
      case (Some mf)
      note S = this
      show ?thesis
      proof (cases "labelsTemplate r = None")
        case True
        with M E S Cons.prems show ?thesis by (simp add: v1alpha1_matchAnyLoop_Cons)
      next
        case False
        then obtain tmpl where T: "labelsTemplate r = Some tmpl" by auto
        obtain r1 out1 e1 where X: "v1alpha1_executeLabelsTemplate parse r mf ret = (r1, out1, e1)"
          by (cases "v1alpha1_executeLabelsTemplate parse r mf ret") auto
        note P = v1alpha1_executeLabelsTemplate_Labels [OF X]
        show ?thesis
        proof (cases e1)
          case None
          with M E S T X Cons.prems
          have "v1alpha1_matchAnyLoop parse ev r1 f alts True out1 = (r', res)"
            by (simp add: v1alpha1_matchAnyLoop_Cons)
          from Cons.IH [OF this] P show ?thesis by simp
        next
          case (Some err)
          with M E S T X Cons.prems have "r' = r1"
            by (simp add: v1alpha1_matchAnyLoop_Cons)
          with P show ?thesis by simp
        qed
      qed
    qed
  qed
qed

lemma ExecuteFrom_shape:
  "(\<exists>e. fst (ExecuteFrom parse ev r f ret) = (None, e))
   \<or> (\<exists>ret'. fst (ExecuteFrom parse ev r f ret) = (Some (ret' ++ Labels r), None))"
proof (cases "Rule.MatchFeatures r = []")
  case True
  then show ?thesis by (auto simp: ExecuteFrom_def)
next
  case False
  obtain m e where M: "match ev (Rule.MatchFeatures r) f = (m, e)"
    by (cases "match ev (Rule.MatchFeatures r) f") auto
  show ?thesis
  proof (cases e)
    case (Some err)
    with M False show ?thesis by (cases m) (simp_all add: ExecuteFrom_def)
  next
    case None
    note E = this
    show ?thesis
    proof (cases m)
      case None
      with M E False show ?thesis by (simp add: ExecuteFrom_def)
    next
      case (Some mf)
      obtain r1 out1 e1 where X: "v1alpha1_executeLabelsTemplate parse r mf ret = (r1, out1, e1)"
        by (cases "v1alpha1_executeLabelsTemplate parse r mf ret") auto
      note P = v1alpha1_executeLabelsTemplate_Labels [OF X]
      from M E Some False X P show ?thesis
        by (cases e1) (auto simp: ExecuteFrom_def)
    qed
  qed
qed

lemma Execute_shape:
  "(\<exists>e. fst (Execute parse ev r f) = (None, e))
   \<or> (\<exists>ret. fst (Execute parse ev r f) = (Some (ret ++ Labels r), None))"
proof (cases "MatchAny r = []")
  case True
  then show ?thesis using ExecuteFrom_shape [of parse ev r f Map.empty] by (simp add: Execute_unfold)
next
  case False
  obtain r1 res where L: "v1alpha1_matchAnyLoop parse ev r f (MatchAny r) False Map.empty = (r1, res)"
    by (cases "v1alpha1_matchAnyLoop parse ev r f (MatchAny r) False Map.empty") auto
  note P = v1alpha1_matchAnyLoop_Labels [OF L]
  show ?thesis
  proof (cases res)
    case (Inl err)
    with False L show ?thesis by (simp add: Execute_unfold)
  next
    case (Inr p)
    obtain matched ret' where "p = (matched, ret')" by (cases p) auto
    with Inr False L P show ?thesis
      using ExecuteFrom_shape [of parse ev r1 f ret'] by (simp add: Execute_unfold)
  qed
qed
text \<open>
  Claim C10. Whenever \<open>Rule.execute\<close> of the custom source or \<open>Rule.Execute\<close> of
  \<open>v1alpha1\<close> returns an error, the label map it returns is nil.
\<close>

theorem error_means_nil_labels:
  "(snd (execute ev r f) \<noteq> None \<longrightarrow> fst (execute ev r f) = None)
   \<and> (snd (fst (Execute parse ev r f)) \<noteq> None \<longrightarrow> fst (fst (Execute parse ev r f)) = None)"
  using execute_shape [of ev r f] Execute_shape [of parse ev r f] by auto

text \<open>The witness is a rule with a template whose first alternative matches, so that the
  template has written a label, and whose second alternative names an unknown domain.\<close>

theorem error_means_nil_labels_witness:
  "snd (execute existsEvaluator ((templateRule ''x=y'')\<lparr>MatchAny := [altKey1, altNoDomain]\<rparr>)
         exampleFeatures) = Some (UnknownDomain ''domain-x'')
   \<and> fst (execute existsEvaluator ((templateRule ''x=y'')\<lparr>MatchAny := [altKey1, altNoDomain]\<rparr>)
         exampleFeatures) = None
   \<and> snd (fst (Execute exampleParse existsEvaluator
         ((templateRule ''x=y'')\<lparr>MatchAny := [altKey1, altNoDomain]\<rparr>) exampleFeatures))
       = Some (UnknownDomain ''domain-x'')
   \<and> fst (fst (Execute exampleParse existsEvaluator
         ((templateRule ''x=y'')\<lparr>MatchAny := [altKey1, altNoDomain]\<rparr>) exampleFeatures)) = None"
proof -
  have 1: "snd (execute existsEvaluator ((templateRule ''x=y'')\<lparr>MatchAny := [altKey1, altNoDomain]\<rparr>)
         exampleFeatures) = Some (UnknownDomain ''domain-x'')"
    by (simp add: execute_unfold matchAnyLoop_Cons templateRule_def exampleRule_def example_alts
        executeLabelsTemplate_def textTemplate_def)
  have 2: "snd (fst (Execute exampleParse existsEvaluator
         ((templateRule ''x=y'')\<lparr>MatchAny := [altKey1, altNoDomain]\<rparr>) exampleFeatures))
       = Some (UnknownDomain ''domain-x'')"
    by (simp add: Execute_unfold v1alpha1_matchAnyLoop_Cons templateRule_def exampleRule_def
        example_alts v1alpha1_executeLabelsTemplate_def expandMap_def templateHelper_execute_def
        textTemplate_def)
  from 1 2 error_means_nil_labels
    [of existsEvaluator "(templateRule ''x=y'')\<lparr>MatchAny := [altKey1, altNoDomain]\<rparr>"
      exampleFeatures exampleParse]
  show ?thesis by simp
qed

text \<open>
  Claim C5, as stated, fails: a rule that does not match returns nil labels, so its
  static labels are not in the result.
\<close>

theorem static_labels_dropped_on_nonmatch_counterexample:
  "Labels (exampleRule\<lparr>MatchFeatures := [termKeyNa]\<rparr>) ''label-1'' = Some ''label-val-1''
   \<and> execute existsEvaluator (exampleRule\<lparr>MatchFeatures := [termKeyNa]\<rparr>) exampleFeatures
       = (None, None)
   \<and> fst (Execute exampleParse existsEvaluator (exampleRule\<lparr>MatchFeatures := [termKeyNa]\<rparr>)
       exampleFeatures) = (None, None)"
  by (simp add: exampleRule_def execute_unfold executeFrom_def Execute_unfold ExecuteFrom_def
      example_matches)


lemma executeFrom_nonmatch:
  "Rule.MatchFeatures r \<noteq> [] \<Longrightarrow> match ev (Rule.MatchFeatures r) f = (None, None) \<Longrightarrow>
   executeFrom ev r f ret = (None, None)"
  by (simp add: executeFrom_def)

lemma ExecuteFrom_nonmatch:
  "Rule.MatchFeatures r \<noteq> [] \<Longrightarrow> match ev (Rule.MatchFeatures r) f = (None, None) \<Longrightarrow>
   ExecuteFrom parse ev r f ret = ((None, None), r)"
  by (simp add: ExecuteFrom_def)

text \<open>
  Claim C5, amended. Whenever \<open>execute\<close> (or \<open>Execute\<close>) returns a label map, it
  returns no error and the static labels were merged into the map last: every static
  label is in the result with its static value, whatever the template wrote under the
  same key. A rule with no \<open>MatchAny\<close> alternatives and no \<open>MatchFeatures\<close> terms
  returns exactly its static labels. A rule that does not match returns nil labels and
  no error, so that its static labels are not emitted: a rule with \<open>MatchAny\<close>
  alternatives none of which matches, and a rule whose \<open>MatchFeatures\<close> do not match
  behind a \<open>MatchAny\<close> list that is empty or has matched. A rule that returns an error
  returns nil labels.
\<close>

theorem static_labels_merged_last:
  "(fst (execute ev r f) = Some ret \<longrightarrow>
      snd (execute ev r f) = None \<and> (\<forall>k v. Labels r k = Some v \<longrightarrow> ret k = Some v))
   \<and> (fst (fst (Execute parse ev r f)) = Some ret' \<longrightarrow>
      snd (fst (Execute parse ev r f)) = None \<and> (\<forall>k v. Labels r k = Some v \<longrightarrow> ret' k = Some v))
   \<and> (MatchAny r = [] \<and> Rule.MatchFeatures r = [] \<longrightarrow>
      execute ev r f = (Some (Labels r), None)
      \<and> fst (Execute parse ev r f) = (Some (Labels r), None))
   \<and> (MatchAny r \<noteq> [] \<and> (\<forall>a\<in>set (MatchAny r). MatchAnyElem_match ev a f = (None, None)) \<longrightarrow>
      execute ev r f = (None, None) \<and> fst (Execute parse ev r f) = (None, None))
   \<and> (Rule.MatchFeatures r \<noteq> [] \<and> match ev (Rule.MatchFeatures r) f = (None, None)
      \<and> (MatchAny r = []
         \<or> (\<exists>acc. matchAnyLoop ev r f (MatchAny r) False Map.empty = Inr (True, acc))) \<longrightarrow>
      execute ev r f = (None, None))
   \<and> (Rule.MatchFeatures r \<noteq> [] \<and> match ev (Rule.MatchFeatures r) f = (None, None)
      \<and> (MatchAny r = []
         \<or> (\<exists>acc. v1alpha1_matchAnyLoop parse ev r f (MatchAny r) False Map.empty =
                    (r, Inr (True, acc)))) \<longrightarrow>
      fst (Execute parse ev r f) = (None, None))
   \<and> (snd (execute ev r f) \<noteq> None \<longrightarrow> fst (execute ev r f) = None)
   \<and> (snd (fst (Execute parse ev r f)) \<noteq> None \<longrightarrow> fst (fst (Execute parse ev r f)) = None)"
proof -
  have c1: "fst (execute ev r f) = Some ret \<longrightarrow>
      snd (execute ev r f) = None \<and> (\<forall>k v. Labels r k = Some v \<longrightarrow> ret k = Some v)"
  proof (intro impI conjI allI)
    assume A: "fst (execute ev r f) = Some ret"
    with execute_shape [of ev r f] obtain t where T: "execute ev r f = (Some (t ++ Labels r), None)"
      by auto
    then show "snd (execute ev r f) = None" by simp
    from A T have "ret = t ++ Labels r" by simp
    then show "ret k = Some v" if "Labels r k = Some v" for k v
      using that by (simp add: map_add_Some_iff)
  qed
  have c2: "fst (fst (Execute parse ev r f)) = Some ret' \<longrightarrow>
      snd (fst (Execute parse ev r f)) = None \<and> (\<forall>k v. Labels r k = Some v \<longrightarrow> ret' k = Some v)"
  proof (intro impI conjI allI)
    assume A: "fst (fst (Execute parse ev r f)) = Some ret'"
    with Execute_shape [of parse ev r f] obtain t where
      T: "fst (Execute parse ev r f) = (Some (t ++ Labels r), None)"
      by auto
    then show "snd (fst (Execute parse ev r f)) = None" by simp
    from A T have "ret' = t ++ Labels r" by simp
    then show "ret' k = Some v" if "Labels r k = Some v" for k v
      using that by (simp add: map_add_Some_iff)
  qed
  have c3: "MatchAny r = [] \<and> Rule.MatchFeatures r = [] \<longrightarrow>
      execute ev r f = (Some (Labels r), None)
      \<and> fst (Execute parse ev r f) = (Some (Labels r), None)"
    by (simp add: execute_unfold executeFrom_def Execute_unfold ExecuteFrom_def)
  have c4: "MatchAny r \<noteq> [] \<and> (\<forall>a\<in>set (MatchAny r). MatchAnyElem_match ev a f = (None, None)) \<longrightarrow>
      execute ev r f = (None, None) \<and> fst (Execute parse ev r f) = (None, None)"
  proof (intro impI)
    assume A: "MatchAny r \<noteq> [] \<and> (\<forall>a\<in>set (MatchAny r). MatchAnyElem_match ev a f = (None, None))"
    then have "matchAnyLoop ev r f (MatchAny r) False Map.empty = Inr (False, Map.empty)"
      and "v1alpha1_matchAnyLoop parse ev r f (MatchAny r) False Map.empty =
             (r, Inr (False, Map.empty))"
      by (simp_all add: matchAnyLoop_none_match v1alpha1_matchAnyLoop_none_match)
    with A show "execute ev r f = (None, None) \<and> fst (Execute parse ev r f) = (None, None)"
      by (simp add: execute_unfold Execute_unfold)
  qed
  have c5: "Rule.MatchFeatures r \<noteq> [] \<and> match ev (Rule.MatchFeatures r) f = (None, None)
      \<and> (MatchAny r = []
         \<or> (\<exists>acc. matchAnyLoop ev r f (MatchAny r) False Map.empty = Inr (True, acc))) \<longrightarrow>
      execute ev r f = (None, None)"
    by (auto simp: execute_unfold executeFrom_nonmatch)
  have c6: "Rule.MatchFeatures r \<noteq> [] \<and> match ev (Rule.MatchFeatures r) f = (None, None)
      \<and> (MatchAny r = []
         \<or> (\<exists>acc. v1alpha1_matchAnyLoop parse ev r f (MatchAny r) False Map.empty =
                    (r, Inr (True, acc)))) \<longrightarrow>
      fst (Execute parse ev r f) = (None, None)"
    by (auto simp: Execute_unfold ExecuteFrom_nonmatch)
  have c7: "snd (execute ev r f) \<noteq> None \<longrightarrow> fst (execute ev r f) = None"
    using execute_shape [of ev r f] by auto
  have c8: "snd (fst (Execute parse ev r f)) \<noteq> None \<longrightarrow> fst (fst (Execute parse ev r f)) = None"
    using Execute_shape [of parse ev r f] by auto
  from c1 c2 c3 c4 c5 c6 c7 c8 show ?thesis by (intro conjI)
qed

text \<open>The witness: a matching rule whose template writes the label \<open>label-1\<close> that
  is also a static label, so that the result has the static value; the rule without
  matchers; a rule whose only alternative does not match, and a rule whose alternative
  matches and whose \<open>MatchFeatures\<close> do not, both with the static label and both
  returning nil; and a rule that returns an error.\<close>

theorem static_labels_merged_last_witness:
  "execute existsEvaluator ((templateRule ''label-1=from-template'')\<lparr>MatchFeatures := [termKey1]\<rparr>)
     exampleFeatures = (Some [''label-1'' \<mapsto> ''label-val-1''], None)
   \<and> fst (Execute exampleParse existsEvaluator
        ((templateRule ''label-1=from-template'')\<lparr>MatchFeatures := [termKey1]\<rparr>) exampleFeatures)
      = (Some [''label-1'' \<mapsto> ''label-val-1''], None)
   \<and> Labels ((templateRule ''label-1=from-template'')\<lparr>MatchFeatures := [termKey1]\<rparr>) ''label-1''
      = Some ''label-val-1''
   \<and> execute existsEvaluator exampleRule exampleFeatures = (Some (Labels exampleRule), None)
   \<and> Labels (exampleRule\<lparr>MatchAny := [altKeyNa]\<rparr>) ''label-1'' = Some ''label-val-1''
   \<and> MatchAnyElem_match existsEvaluator altKeyNa exampleFeatures = (None, None)
   \<and> execute existsEvaluator (exampleRule\<lparr>MatchAny := [altKeyNa]\<rparr>) exampleFeatures = (None, None)
   \<and> fst (Execute exampleParse existsEvaluator (exampleRule\<lparr>MatchAny := [altKeyNa]\<rparr>)
        exampleFeatures) = (None, None)
   \<and> Labels (exampleRule\<lparr>MatchFeatures := [termKeyNa], MatchAny := [altKey1]\<rparr>) ''label-1'' =
       Some ''label-val-1''
   \<and> match existsEvaluator [termKeyNa] exampleFeatures = (None, None)
   \<and> execute existsEvaluator (exampleRule\<lparr>MatchFeatures := [termKeyNa], MatchAny := [altKey1]\<rparr>)
        exampleFeatures = (None, None)
   \<and> fst (Execute exampleParse existsEvaluator
        (exampleRule\<lparr>MatchFeatures := [termKeyNa], MatchAny := [altKey1]\<rparr>) exampleFeatures) =
       (None, None)
   \<and> snd (execute existsEvaluator (exampleRule\<lparr>MatchAny := [altNoDomain]\<rparr>) exampleFeatures) =
       Some (UnknownDomain ''domain-x'')
   \<and> fst (execute existsEvaluator (exampleRule\<lparr>MatchAny := [altNoDomain]\<rparr>) exampleFeatures) =
       None"
proof -
  let ?r = "(templateRule ''label-1=from-template'')\<lparr>MatchFeatures := [termKey1]\<rparr>"
  let ?n = "exampleRule\<lparr>MatchAny := [altKeyNa]\<rparr>"
  let ?m = "exampleRule\<lparr>MatchFeatures := [termKeyNa], MatchAny := [altKey1]\<rparr>"
  let ?e = "exampleRule\<lparr>MatchAny := [altNoDomain]\<rparr>"
  have 1: "execute existsEvaluator ?r exampleFeatures = (Some [''label-1'' \<mapsto> ''label-val-1''], None)"
    by (simp add: execute_unfold executeFrom_def templateRule_def exampleRule_def example_matches
        executeLabelsTemplate_def textTemplate_def TrimSpace_examples SplitN2_def)
  have 2: "fst (Execute exampleParse existsEvaluator ?r exampleFeatures)
      = (Some [''label-1'' \<mapsto> ''label-val-1''], None)"
    by (simp add: Execute_unfold ExecuteFrom_def templateRule_def exampleRule_def example_matches
        v1alpha1_executeLabelsTemplate_def expandMap_def templateHelper_execute_def
        textTemplate_def TrimSpace_examples SplitN2_def)
  have 3: "Labels ?r ''label-1'' = Some ''label-val-1''"
    by (simp add: templateRule_def exampleRule_def)
  have 4: "MatchAny exampleRule = [] \<and> Rule.MatchFeatures exampleRule = []"
    by (simp add: exampleRule_def)
  from 4 static_labels_merged_last [of existsEvaluator exampleRule exampleFeatures]
  have 5: "execute existsEvaluator exampleRule exampleFeatures = (Some (Labels exampleRule), None)"
    by blast
  from 1 2 3 static_labels_merged_last
    [of existsEvaluator ?r exampleFeatures "[''label-1'' \<mapsto> ''label-val-1'']" exampleParse
      "[''label-1'' \<mapsto> ''label-val-1'']"]
  have 6: "snd (execute existsEvaluator ?r exampleFeatures) = None
         \<and> snd (fst (Execute exampleParse existsEvaluator ?r exampleFeatures)) = None"
    by simp
  have 7: "Labels ?n ''label-1'' = Some ''label-val-1''
         \<and> Labels ?m ''label-1'' = Some ''label-val-1''"
    by (simp add: exampleRule_def)
  have 8: "MatchAnyElem_match existsEvaluator altKeyNa exampleFeatures = (None, None)
         \<and> match existsEvaluator [termKeyNa] exampleFeatures = (None, None)"
    by (simp add: example_alts example_matches)
  have 9: "MatchAny ?n \<noteq> []
         \<and> (\<forall>a\<in>set (MatchAny ?n). MatchAnyElem_match existsEvaluator a exampleFeatures =
               (None, None))"
    by (simp add: example_alts)
  note N = static_labels_merged_last
    [where ev = existsEvaluator and r = ?n and f = exampleFeatures and parse = exampleParse,
      THEN conjunct2, THEN conjunct2, THEN conjunct2, THEN conjunct1, rule_format]
  from N 9 have 10: "execute existsEvaluator ?n exampleFeatures = (None, None)
         \<and> fst (Execute exampleParse existsEvaluator ?n exampleFeatures) = (None, None)"
    by blast
  have 11: "Rule.MatchFeatures ?m \<noteq> []
          \<and> match existsEvaluator (Rule.MatchFeatures ?m) exampleFeatures = (None, None)
          \<and> matchAnyLoop existsEvaluator ?m exampleFeatures (MatchAny ?m) False Map.empty =
              Inr (True, Map.empty)
          \<and> v1alpha1_matchAnyLoop exampleParse existsEvaluator ?m exampleFeatures (MatchAny ?m)
              False Map.empty = (?m, Inr (True, Map.empty))"
    by (simp add: example_matches matchAnyLoop_Cons v1alpha1_matchAnyLoop_Cons example_alts
        exampleRule_def)
  note M1 = static_labels_merged_last
    [where ev = existsEvaluator and r = ?m and f = exampleFeatures and parse = exampleParse,
      THEN conjunct2, THEN conjunct2, THEN conjunct2, THEN conjunct2, THEN conjunct1,
      rule_format]
  note M2 = static_labels_merged_last
    [where ev = existsEvaluator and r = ?m and f = exampleFeatures and parse = exampleParse,
      THEN conjunct2, THEN conjunct2, THEN conjunct2, THEN conjunct2, THEN conjunct2,
      THEN conjunct1, rule_format]
  from M1 11 have 12: "execute existsEvaluator ?m exampleFeatures = (None, None)" by blast
  from M2 11 have 13: "fst (Execute exampleParse existsEvaluator ?m exampleFeatures) = (None, None)"
    by blast
  have 14: "snd (execute existsEvaluator ?e exampleFeatures) = Some (UnknownDomain ''domain-x'')"
    by (simp add: execute_unfold matchAnyLoop_Cons example_alts)
  note E = static_labels_merged_last
    [where ev = existsEvaluator and r = ?e and f = exampleFeatures and parse = exampleParse,
      THEN conjunct2, THEN conjunct2, THEN conjunct2, THEN conjunct2, THEN conjunct2,
      THEN conjunct2, THEN conjunct1, rule_format]
  from E 14 have 15: "fst (execute existsEvaluator ?e exampleFeatures) = None" by simp
  from 1 2 3 5 6 7 8 10 12 13 14 15 show ?thesis by simp
qed

section \<open>Properties of the MatchAny stage\<close>

lemma writeLabels_map_add: "writeLabels (a ++ b) kvs = a ++ writeLabels b kvs"
  unfolding writeLabels_def
  by (induction kvs arbitrary: b) (auto simp: map_add_upd [symmetric] simp del: map_add_upd)

lemma writeLabels_onto: "writeLabels out kvs = out ++ writeLabels Map.empty kvs"
  using writeLabels_map_add [of out Map.empty kvs] by simp

lemma executeLabelsTemplate_ok:
  "labelsTemplate r = Some tmpl \<Longrightarrow> tmpl m = Inr s \<Longrightarrow>
   executeLabelsTemplate r m ret = (ret ++ templateLabels ''true'' tmpl m, None)"
  using writeLabels_onto [of ret "specLabels ''true'' s"]
  by (simp add: executeLabelsTemplate_def templateLabels_def splitLabels_spec specLabels_def)

lemma v1alpha1_executeLabelsTemplate_ok:
  "labelsTemplate r = Some tmpl \<Longrightarrow> LabelsTemplate r \<noteq> [] \<Longrightarrow> tmpl m = Inr s \<Longrightarrow>
   v1alpha1_executeLabelsTemplate parse r m ret = (r, ret ++ templateLabels [] tmpl m, None)"
  by (simp add: v1alpha1_executeLabelsTemplate_def expandMap_def templateHelper_execute_def
      templateLabels_def expandMapLoop_spec specLabels_def)

lemma matchAnyLoop_first_match:
  assumes "labelsTemplate r = None"
    and "\<forall>p\<in>set pre. MatchAnyElem_match ev p f = (None, None)"
    and "MatchAnyElem_match ev a f = (Some m, None)"
  shows "matchAnyLoop ev r f (pre @ a # post) matched ret = Inr (True, ret)"
  using assms by (induction pre) (simp_all add: matchAnyLoop_Cons)

lemma v1alpha1_matchAnyLoop_first_match:
  assumes "labelsTemplate r = None"
    and "\<forall>p\<in>set pre. MatchAnyElem_match ev p f = (None, None)"
    and "MatchAnyElem_match ev a f = (Some m, None)"
  shows "v1alpha1_matchAnyLoop parse ev r f (pre @ a # post) matched ret = (r, Inr (True, ret))"
  using assms by (induction pre) (simp_all add: v1alpha1_matchAnyLoop_Cons)

lemma matchedAlternatives_Cons:
  "matchedAlternatives ev f (a # alts) =
     (case fst (MatchAnyElem_match ev a f) of
        None \<Rightarrow> matchedAlternatives ev f alts
      | Some m \<Rightarrow> m # matchedAlternatives ev f alts)"
  by (simp add: matchedAlternatives_def List.map_filter_simps split: option.splits)

lemma matchAnyLoop_accumulates:
  assumes "labelsTemplate r = Some tmpl"
    and "\<forall>a\<in>set alts. snd (MatchAnyElem_match ev a f) = None"
    and "\<forall>m\<in>set (matchedAlternatives ev f alts). \<exists>s. tmpl m = Inr s"
  shows "matchAnyLoop ev r f alts matched ret =
           Inr (matched \<or> matchedAlternatives ev f alts \<noteq> [],
                accumulate ''true'' tmpl ret (matchedAlternatives ev f alts))"
  using assms(2,3)
proof (induction alts arbitrary: matched ret)
  case Nil
  then show ?case by (simp add: matchedAlternatives_def accumulate_def List.map_filter_simps)
next
  case (Cons a alts)
  obtain m e where M: "MatchAnyElem_match ev a f = (m, e)"
    by (cases "MatchAnyElem_match ev a f") auto
  with Cons.prems(1) have E: "e = None" by simp
  from Cons.prems(1) have H1: "\<forall>a\<in>set alts. snd (MatchAnyElem_match ev a f) = None" by simp
  show ?case
  proof (cases m)
    case None
    with M E Cons.prems(2) have "\<forall>m\<in>set (matchedAlternatives ev f alts). \<exists>s. tmpl m = Inr s"
      by (simp add: matchedAlternatives_Cons)
    from Cons.IH [OF H1 this] M E None show ?thesis
      by (simp add: matchAnyLoop_Cons matchedAlternatives_Cons)
  next
    case (Some mf)
    with M E Cons.prems(2) have H2: "\<forall>m\<in>set (matchedAlternatives ev f alts). \<exists>s. tmpl m = Inr s"
      and "\<exists>s. tmpl mf = Inr s"
      by (simp_all add: matchedAlternatives_Cons)
    then obtain s where S: "tmpl mf = Inr s" by blast
    from Cons.IH [OF H1 H2, of True "ret ++ templateLabels ''true'' tmpl mf"] M E Some
      executeLabelsTemplate_ok [OF assms(1) S, of ret] assms(1)
    show ?thesis
      by (simp add: matchAnyLoop_Cons matchedAlternatives_Cons accumulate_def)
  qed
qed

lemma v1alpha1_matchAnyLoop_accumulates:
  assumes "labelsTemplate r = Some tmpl" and "LabelsTemplate r \<noteq> []"
    and "\<forall>a\<in>set alts. snd (MatchAnyElem_match ev a f) = None"
    and "\<forall>m\<in>set (matchedAlternatives ev f alts). \<exists>s. tmpl m = Inr s"
  shows "v1alpha1_matchAnyLoop parse ev r f alts matched ret =
           (r, Inr (matched \<or> matchedAlternatives ev f alts \<noteq> [],
                    accumulate [] tmpl ret (matchedAlternatives ev f alts)))"
  using assms(3,4)
proof (induction alts arbitrary: matched ret)
  case Nil
  then show ?case by (simp add: matchedAlternatives_def accumulate_def List.map_filter_simps)
next
  case (Cons a alts)
  obtain m e where M: "MatchAnyElem_match ev a f = (m, e)"
    by (cases "MatchAnyElem_match ev a f") auto
  with Cons.prems(1) have E: "e = None" by simp
  from Cons.prems(1) have H1: "\<forall>a\<in>set alts. snd (MatchAnyElem_match ev a f) = None" by simp
  show ?case
  proof (cases m)
    case None
    with M E Cons.prems(2) have "\<forall>m\<in>set (matchedAlternatives ev f alts). \<exists>s. tmpl m = Inr s"
      by (simp add: matchedAlternatives_Cons)
    from Cons.IH [OF H1 this] M E None show ?thesis
      by (simp add: v1alpha1_matchAnyLoop_Cons matchedAlternatives_Cons)
  next
    case (Some mf)
    with M E Cons.prems(2) have H2: "\<forall>m\<in>set (matchedAlternatives ev f alts). \<exists>s. tmpl m = Inr s"
      and "\<exists>s. tmpl mf = Inr s"
      by (simp_all add: matchedAlternatives_Cons)
    then obtain s where S: "tmpl mf = Inr s" by blast
    from Cons.IH [OF H1 H2, of True "ret ++ templateLabels [] tmpl mf"] M E Some
      v1alpha1_executeLabelsTemplate_ok [OF assms(1,2) S, of parse ret] assms(1)
    show ?thesis
      by (simp add: v1alpha1_matchAnyLoop_Cons matchedAlternatives_Cons accumulate_def)
  qed
qed

lemma ExecuteFrom_MatchAny_irrelevant:
  "fst (ExecuteFrom parse ev (r\<lparr>MatchAny := x\<rparr>) f ret) = fst (ExecuteFrom parse ev r f ret)"
  unfolding ExecuteFrom_def v1alpha1_executeLabelsTemplate_def
  by (auto split: sum.splits prod.splits option.splits)

lemma executeFrom_MatchAny_irrelevant:
  "executeFrom ev (r\<lparr>MatchAny := x\<rparr>) f ret = executeFrom ev r f ret"
  unfolding executeFrom_def executeLabelsTemplate_def
  by (simp split: sum.splits prod.splits option.splits)
text \<open>
  The \<open>MatchAny\<close> stage, in the terms of claim C1. Take a rule with a non-empty
  \<open>MatchAny\<close> list; an alternative matches when its matcher returns matched features
  and no error, and does not match when it returns nil and no error. Say that a rule has
  a template when its compiled template \<open>labelsTemplate\<close> is set. Then, for
  \<open>execute\<close> of the custom source and \<open>Execute\<close> of \<open>v1alpha1\<close>:
  \<^item> if no alternative matches, the result is nil labels and no error;
  \<^item> if the rule has no template and \<open>a\<close> is the first alternative that matches, the
    result is that of the rule without its \<open>MatchAny\<close> list, whatever the alternatives
    after \<open>a\<close> are: the loop stops at \<open>a\<close>;
  \<^item> if the rule has a template, no alternative fails, the template succeeds on the
    matched features of every matching alternative and at least one alternative matches,
    then execution goes on after the \<open>MatchAny\<close> stage with the labels accumulated
    over all matching alternatives in order, later ones overriding earlier ones (for
    \<open>Execute\<close>: when the template text is not empty, as it is for a compiled template).
\<close>

theorem matchAny_is_ordered_or:
  assumes "MatchAny r \<noteq> []"
  shows "((\<forall>a\<in>set (MatchAny r). MatchAnyElem_match ev a f = (None, None)) \<longrightarrow>
            execute ev r f = (None, None) \<and> fst (Execute parse ev r f) = (None, None))
       \<and> (labelsTemplate r = None \<and> MatchAny r = pre @ a # post
            \<and> (\<forall>p\<in>set pre. MatchAnyElem_match ev p f = (None, None))
            \<and> MatchAnyElem_match ev a f = (Some m, None) \<longrightarrow>
            execute ev r f = execute ev (r\<lparr>MatchAny := []\<rparr>) f
            \<and> fst (Execute parse ev r f) = fst (Execute parse ev (r\<lparr>MatchAny := []\<rparr>) f))
       \<and> (labelsTemplate r = Some tmpl
            \<and> (\<forall>a\<in>set (MatchAny r). snd (MatchAnyElem_match ev a f) = None)
            \<and> (\<forall>m\<in>set (matchedAlternatives ev f (MatchAny r)). \<exists>s. tmpl m = Inr s)
            \<and> matchedAlternatives ev f (MatchAny r) \<noteq> [] \<longrightarrow>
            execute ev r f =
              executeFrom ev r f
                (accumulate ''true'' tmpl Map.empty (matchedAlternatives ev f (MatchAny r)))
            \<and> (LabelsTemplate r \<noteq> [] \<longrightarrow>
                 Execute parse ev r f =
                   ExecuteFrom parse ev r f
                     (accumulate [] tmpl Map.empty (matchedAlternatives ev f (MatchAny r)))))"
proof (intro conjI impI)
  assume "\<forall>a\<in>set (MatchAny r). MatchAnyElem_match ev a f = (None, None)"
  with assms show "execute ev r f = (None, None)"
    and "fst (Execute parse ev r f) = (None, None)"
    by (simp_all add: execute_unfold Execute_unfold matchAnyLoop_none_match
        v1alpha1_matchAnyLoop_none_match)
next
  assume A: "labelsTemplate r = None \<and> MatchAny r = pre @ a # post
            \<and> (\<forall>p\<in>set pre. MatchAnyElem_match ev p f = (None, None))
            \<and> MatchAnyElem_match ev a f = (Some m, None)"
  then have L: "matchAnyLoop ev r f (MatchAny r) False Map.empty = Inr (True, Map.empty)"
    using matchAnyLoop_first_match [of r pre ev f a m post False Map.empty] by simp
  from A have L': "v1alpha1_matchAnyLoop parse ev r f (MatchAny r) False Map.empty
                    = (r, Inr (True, Map.empty))"
    using v1alpha1_matchAnyLoop_first_match [of r pre ev f a m parse post False Map.empty] by simp
  from assms L show "execute ev r f = execute ev (r\<lparr>MatchAny := []\<rparr>) f"
    by (simp add: execute_unfold executeFrom_MatchAny_irrelevant)
  from assms L' show "fst (Execute parse ev r f) = fst (Execute parse ev (r\<lparr>MatchAny := []\<rparr>) f)"
    by (simp add: Execute_unfold ExecuteFrom_MatchAny_irrelevant)
next
  assume A: "labelsTemplate r = Some tmpl
            \<and> (\<forall>a\<in>set (MatchAny r). snd (MatchAnyElem_match ev a f) = None)
            \<and> (\<forall>m\<in>set (matchedAlternatives ev f (MatchAny r)). \<exists>s. tmpl m = Inr s)
            \<and> matchedAlternatives ev f (MatchAny r) \<noteq> []"
  then have "matchAnyLoop ev r f (MatchAny r) False Map.empty =
           Inr (True, accumulate ''true'' tmpl Map.empty (matchedAlternatives ev f (MatchAny r)))"
    using matchAnyLoop_accumulates [of r tmpl "MatchAny r" ev f False Map.empty] by simp
  with assms show "execute ev r f =
              executeFrom ev r f
                (accumulate ''true'' tmpl Map.empty (matchedAlternatives ev f (MatchAny r)))"
    by (simp add: execute_unfold)
  show "Execute parse ev r f =
                   ExecuteFrom parse ev r f
                     (accumulate [] tmpl Map.empty (matchedAlternatives ev f (MatchAny r)))"
    if T: "LabelsTemplate r \<noteq> []"
  proof -
    from A T have "v1alpha1_matchAnyLoop parse ev r f (MatchAny r) False Map.empty =
           (r, Inr (True, accumulate [] tmpl Map.empty (matchedAlternatives ev f (MatchAny r))))"
      using v1alpha1_matchAnyLoop_accumulates [of r tmpl "MatchAny r" ev f parse False Map.empty]
      by simp
    with assms show ?thesis by (simp add: Execute_unfold)
  qed
qed

lemma featureRule_matched:
  "matchedAlternatives existsEvaluator exampleFeatures [altKey1, altKeyNa, altValue1] =
     [[''domain-1'' \<mapsto> [''kf-1'' \<mapsto> MatchedKeys [''key-1'']]],
      [''domain-1'' \<mapsto> [''vf-1'' \<mapsto> MatchedValues [(''key-1'', ''val-1'')]]]]"
  by (simp add: matchedAlternatives_Cons example_alts matchedAlternatives_def
      List.map_filter_simps)

lemma featureTemplate_labels:
  "templateLabels dflt featureTemplate [''domain-1'' \<mapsto> [''kf-1'' \<mapsto> MatchedKeys [''key-1'']]]
     = [''last'' \<mapsto> ''keys'', ''keys'' \<mapsto> dflt]"
  "templateLabels dflt featureTemplate
       [''domain-1'' \<mapsto> [''vf-1'' \<mapsto> MatchedValues [(''key-1'', ''val-1'')]]]
     = [''last'' \<mapsto> ''values'', ''values'' \<mapsto> dflt]"
  by (simp_all add: templateLabels_def featureTemplate_def specLabels_def
      TrimSpace_examples specLabel_def writeLabels_def)

lemma featureRule_accumulated:
  "accumulate dflt featureTemplate Map.empty
     (matchedAlternatives existsEvaluator exampleFeatures [altKey1, altKeyNa, altValue1])
   = [''last'' \<mapsto> ''values'', ''keys'' \<mapsto> dflt, ''values'' \<mapsto> dflt]"
  by (rule ext) (simp add: featureRule_matched accumulate_def featureTemplate_labels map_add_def)

theorem matchAny_is_ordered_or_witness:
  "execute existsEvaluator (exampleRule\<lparr>MatchAny := [altKeyNa]\<rparr>) exampleFeatures = (None, None)
   \<and> fst (Execute exampleParse existsEvaluator (exampleRule\<lparr>MatchAny := [altKeyNa]\<rparr>)
          exampleFeatures) = (None, None)
   \<and> execute existsEvaluator (exampleRule\<lparr>MatchAny := [altKeyNa, altKey1, altNoDomain]\<rparr>)
        exampleFeatures = (Some [''label-1'' \<mapsto> ''label-val-1''], None)
   \<and> fst (Execute exampleParse existsEvaluator
          (exampleRule\<lparr>MatchAny := [altKeyNa, altKey1, altNoDomain]\<rparr>) exampleFeatures)
        = (Some [''label-1'' \<mapsto> ''label-val-1''], None)
   \<and> execute existsEvaluator featureRule exampleFeatures =
        (Some ([''last'' \<mapsto> ''values'', ''keys'' \<mapsto> ''true'', ''values'' \<mapsto> ''true'']
               ++ [''label-1'' \<mapsto> ''label-val-1'']), None)
   \<and> fst (Execute exampleParse existsEvaluator featureRule exampleFeatures) =
        (Some ([''last'' \<mapsto> ''values'', ''keys'' \<mapsto> [], ''values'' \<mapsto> []]
               ++ [''label-1'' \<mapsto> ''label-val-1'']), None)"
proof -
  let ?ra = "exampleRule\<lparr>MatchAny := [altKeyNa]\<rparr>"
  let ?rb = "exampleRule\<lparr>MatchAny := [altKeyNa, altKey1, altNoDomain]\<rparr>"
  have na: "MatchAny ?ra \<noteq> []" and nb: "MatchAny ?rb \<noteq> []" and nc: "MatchAny featureRule \<noteq> []"
    by (simp_all add: exampleRule_def featureRule_def)
  have ha: "\<forall>a\<in>set (MatchAny ?ra). MatchAnyElem_match existsEvaluator a exampleFeatures = (None, None)"
    by (simp add: exampleRule_def example_alts)
  have hb: "labelsTemplate ?rb = None \<and> MatchAny ?rb = [altKeyNa] @ altKey1 # [altNoDomain]
            \<and> (\<forall>p\<in>set [altKeyNa]. MatchAnyElem_match existsEvaluator p exampleFeatures = (None, None))
            \<and> MatchAnyElem_match existsEvaluator altKey1 exampleFeatures =
                (Some [''domain-1'' \<mapsto> [''kf-1'' \<mapsto> MatchedKeys [''key-1'']]], None)"
    by (simp add: exampleRule_def example_alts)
  have hc: "labelsTemplate featureRule = Some featureTemplate
            \<and> (\<forall>a\<in>set (MatchAny featureRule).
                  snd (MatchAnyElem_match existsEvaluator a exampleFeatures) = None)
            \<and> (\<forall>m\<in>set (matchedAlternatives existsEvaluator exampleFeatures (MatchAny featureRule)).
                  \<exists>s. featureTemplate m = Inr s)
            \<and> matchedAlternatives existsEvaluator exampleFeatures (MatchAny featureRule) \<noteq> []
            \<and> LabelsTemplate featureRule \<noteq> []"
    by (simp add: featureRule_def exampleRule_def example_alts featureRule_matched
        featureTemplate_def)
  have rest: "execute existsEvaluator (?rb\<lparr>MatchAny := []\<rparr>) exampleFeatures
                = (Some [''label-1'' \<mapsto> ''label-val-1''], None)"
    "fst (Execute exampleParse existsEvaluator (?rb\<lparr>MatchAny := []\<rparr>) exampleFeatures)
                = (Some [''label-1'' \<mapsto> ''label-val-1''], None)"
    by (simp_all add: exampleRule_def execute_unfold executeFrom_def Execute_unfold ExecuteFrom_def)
  have from_c: "executeFrom existsEvaluator featureRule exampleFeatures acc
                  = (Some (acc ++ [''label-1'' \<mapsto> ''label-val-1'']), None)"
    "fst (ExecuteFrom exampleParse existsEvaluator featureRule exampleFeatures acc)
                  = (Some (acc ++ [''label-1'' \<mapsto> ''label-val-1'']), None)" for acc
    by (simp_all add: featureRule_def exampleRule_def executeFrom_def ExecuteFrom_def)
  have acc: "accumulate dflt featureTemplate Map.empty
               (matchedAlternatives existsEvaluator exampleFeatures (MatchAny featureRule))
             = [''last'' \<mapsto> ''values'', ''keys'' \<mapsto> dflt, ''values'' \<mapsto> dflt]" for dflt
    using featureRule_accumulated [of dflt] by (simp add: featureRule_def exampleRule_def)
  from matchAny_is_ordered_or [OF na, of existsEvaluator exampleFeatures exampleParse] ha
  have A: "execute existsEvaluator ?ra exampleFeatures = (None, None)
         \<and> fst (Execute exampleParse existsEvaluator ?ra exampleFeatures) = (None, None)"
    by blast
  from matchAny_is_ordered_or [OF nb, where ev = existsEvaluator and f = exampleFeatures
      and parse = exampleParse and pre = "[altKeyNa]" and a = altKey1 and post = "[altNoDomain]"
      and m = "[''domain-1'' \<mapsto> [''kf-1'' \<mapsto> MatchedKeys [''key-1'']]]"] hb rest
  have B: "execute existsEvaluator ?rb exampleFeatures = (Some [''label-1'' \<mapsto> ''label-val-1''], None)
         \<and> fst (Execute exampleParse existsEvaluator ?rb exampleFeatures)
             = (Some [''label-1'' \<mapsto> ''label-val-1''], None)"
    by simp
  from matchAny_is_ordered_or [OF nc, where ev = existsEvaluator and f = exampleFeatures
      and parse = exampleParse and tmpl = featureTemplate] hc
  have "execute existsEvaluator featureRule exampleFeatures =
          executeFrom existsEvaluator featureRule exampleFeatures
            (accumulate ''true'' featureTemplate Map.empty
               (matchedAlternatives existsEvaluator exampleFeatures (MatchAny featureRule)))
      \<and> Execute exampleParse existsEvaluator featureRule exampleFeatures =
          ExecuteFrom exampleParse existsEvaluator featureRule exampleFeatures
            (accumulate [] featureTemplate Map.empty
               (matchedAlternatives existsEvaluator exampleFeatures (MatchAny featureRule)))"
    by blast
  then have C: "execute existsEvaluator featureRule exampleFeatures =
        (Some ([''last'' \<mapsto> ''values'', ''keys'' \<mapsto> ''true'', ''values'' \<mapsto> ''true'']
               ++ [''label-1'' \<mapsto> ''label-val-1'']), None)
     \<and> fst (Execute exampleParse existsEvaluator featureRule exampleFeatures) =
        (Some ([''last'' \<mapsto> ''values'', ''keys'' \<mapsto> [], ''values'' \<mapsto> []]
               ++ [''label-1'' \<mapsto> ''label-val-1'']), None)"
    by (simp add: from_c acc)
  from A B C show ?thesis by blast
qed

text \<open>
  Claim C1 at the failing input of \<open>Rule.Execute\<close> of \<open>v1alpha1\<close>. There the
  template is compiled only inside \<open>executeLabelsTemplate\<close>, while the \<open>MatchAny\<close>
  loop tests the compiled template: a rule with the template text \<open>x=y\<close> that is not
  compiled yet, and two matching alternatives, leaves the loop at the first match and
  returns its static labels only, with the rule unchanged. The custom source's
  \<open>execute\<close>, for the same rule with its template compiled as \<open>SetConfig\<close> does,
  returns the label \<open>x=y\<close> with the static labels.
\<close>

theorem Execute_skips_uncompiled_template:
  "Execute exampleParse existsEvaluator
     (exampleRule\<lparr>LabelsTemplate := ''x=y'', MatchAny := [altKey1, altValue1]\<rparr>) exampleFeatures
   = ((Some [''label-1'' \<mapsto> ''label-val-1''], None),
      exampleRule\<lparr>LabelsTemplate := ''x=y'', MatchAny := [altKey1, altValue1]\<rparr>)
   \<and> execute existsEvaluator ((templateRule ''x=y'')\<lparr>MatchAny := [altKey1, altValue1]\<rparr>)
       exampleFeatures
     = (Some ([''x'' \<mapsto> ''y''] ++ [''label-1'' \<mapsto> ''label-val-1'']), None)"
proof -
  have 1: "Execute exampleParse existsEvaluator
     (exampleRule\<lparr>LabelsTemplate := ''x=y'', MatchAny := [altKey1, altValue1]\<rparr>) exampleFeatures
   = ((Some [''label-1'' \<mapsto> ''label-val-1''], None),
      exampleRule\<lparr>LabelsTemplate := ''x=y'', MatchAny := [altKey1, altValue1]\<rparr>)"
    by (simp add: Execute_unfold v1alpha1_matchAnyLoop_Cons ExecuteFrom_def exampleRule_def
        example_alts)
  have 2: "execute existsEvaluator ((templateRule ''x=y'')\<lparr>MatchAny := [altKey1, altValue1]\<rparr>)
       exampleFeatures
     = (Some ([''x'' \<mapsto> ''y''] ++ [''label-1'' \<mapsto> ''label-val-1'']), None)"
    by (simp add: execute_unfold matchAnyLoop_Cons executeFrom_def templateRule_def
        exampleRule_def example_alts executeLabelsTemplate_def textTemplate_def
        TrimSpace_examples SplitN2_def)
  from 1 2 show ?thesis by simp
qed

section \<open>Properties of the legacy rules\<close>





lemma example_legacy:
  "LegacyMatcher_match exampleMatch legacyYes = (True, None)"
  "LegacyMatcher_match exampleMatch legacyNo = (False, None)"
  "LegacyMatcher_match exampleMatch legacyUnset = (True, None)"
  "LegacyMatcher_match exampleMatch legacyFail = (False, Some (External ''not available''))"
  by (simp_all add: LegacyMatcher_match_def legacyYes_def legacyNo_def legacyFail_def
      legacyUnset_def exampleMatch_def)


section \<open>Properties of decoding, encoding and the label loop\<close>

lemma hasMatchOn_iff:
  "hasMatchOn lower raw = (\<exists>k\<in>set (map fst raw). ToLower lower k = ''matchon'')"
  by (induction raw) auto

lemma ToLower_matchOn: "ToLower lower ''matchOn'' = ''matchon''"
  by (simp add: ToLower_def isASCII_def toLowerChar_def)

text \<open>
  Claim C7. \<open>UnmarshalJSON\<close> first parses the text into a map from keys to raw
  values, and returns the error when that fails. If some key of the map equals
  \<open>matchOn\<close> when both are put in lower case, the text is decoded as a legacy rule into
  the field \<open>LegacyRule\<close>; otherwise it is decoded as a modern rule into the field
  \<open>Rule\<close>.
\<close>

theorem UnmarshalJSON_selects_dialect:
  "(rawParse dec data = Inl err \<longrightarrow> UnmarshalJSON dec c data = (c, Some err))
   \<and> (rawParse dec data = Inr raw
      \<and> (\<exists>k\<in>set (map fst raw).
            ToLower (keyToLower dec) k = ToLower (keyToLower dec) ''matchOn'') \<longrightarrow>
        UnmarshalJSON dec c data =
          (c\<lparr>LegacyRule := fst (decodeLegacy dec data)\<rparr>, snd (decodeLegacy dec data)))
   \<and> (rawParse dec data = Inr raw
      \<and> \<not> (\<exists>k\<in>set (map fst raw).
              ToLower (keyToLower dec) k = ToLower (keyToLower dec) ''matchOn'') \<longrightarrow>
        UnmarshalJSON dec c data =
          (c\<lparr>Rule := fst (decodeRule dec data)\<rparr>, snd (decodeRule dec data)))"
proof (intro conjI impI)
  assume "rawParse dec data = Inl err"
  then show "UnmarshalJSON dec c data = (c, Some err)"
    by (simp add: UnmarshalJSON_def)
next
  assume A: "rawParse dec data = Inr raw
             \<and> (\<exists>k\<in>set (map fst raw).
                   ToLower (keyToLower dec) k = ToLower (keyToLower dec) ''matchOn'')"
  then have "hasMatchOn (keyToLower dec) raw" by (simp add: hasMatchOn_iff ToLower_matchOn)
  with A show "UnmarshalJSON dec c data =
          (c\<lparr>LegacyRule := fst (decodeLegacy dec data)\<rparr>, snd (decodeLegacy dec data))"
    by (simp add: UnmarshalJSON_def split: prod.splits)
next
  assume A: "rawParse dec data = Inr raw
             \<and> \<not> (\<exists>k\<in>set (map fst raw).
                     ToLower (keyToLower dec) k = ToLower (keyToLower dec) ''matchOn'')"
  then have "\<not> hasMatchOn (keyToLower dec) raw" by (simp add: hasMatchOn_iff ToLower_matchOn)
  with A show "UnmarshalJSON dec c data =
          (c\<lparr>Rule := fst (decodeRule dec data)\<rparr>, snd (decodeRule dec data))"
    by (simp add: UnmarshalJSON_def split: prod.splits)
qed

theorem UnmarshalJSON_selects_dialect_witness:
  "rawParse exampleDecoders ''legacy'' = Inr [(''name'', ''1''), (''MatchOn'', ''2'')]
   \<and> ToLower (keyToLower exampleDecoders) ''MatchOn'' =
       ToLower (keyToLower exampleDecoders) ''matchOn''
   \<and> UnmarshalJSON exampleDecoders emptyCustomRule ''legacy''
       = (\<lparr>LegacyRule = Some exampleLegacyRule, Rule = None\<rparr>, None)
   \<and> rawParse exampleDecoders ''modern'' = Inr [(''name'', ''1''), (''matchFeatures'', ''2'')]
   \<and> UnmarshalJSON exampleDecoders emptyCustomRule ''modern''
       = (\<lparr>LegacyRule = None, Rule = Some exampleRule\<rparr>, None)
   \<and> rawParse exampleDecoders ''{'' = Inl (External ''syntax error'')
   \<and> UnmarshalJSON exampleDecoders emptyCustomRule ''{''
       = (emptyCustomRule, Some (External ''syntax error''))"
proof -
  have p1: "rawParse exampleDecoders ''legacy'' = Inr [(''name'', ''1''), (''MatchOn'', ''2'')]"
    and p2: "rawParse exampleDecoders ''modern'' = Inr [(''name'', ''1''), (''matchFeatures'', ''2'')]"
    and p3: "rawParse exampleDecoders ''{'' = Inl (External ''syntax error'')"
    by (simp_all add: exampleDecoders_def)
  have low:
    "ToLower (keyToLower exampleDecoders) ''MatchOn'' =
       ToLower (keyToLower exampleDecoders) ''matchOn''"
    "ToLower (keyToLower exampleDecoders) ''name'' \<noteq>
       ToLower (keyToLower exampleDecoders) ''matchOn''"
    "ToLower (keyToLower exampleDecoders) ''matchFeatures'' \<noteq>
       ToLower (keyToLower exampleDecoders) ''matchOn''"
    by (simp_all add: ToLower_def isASCII_def toLowerChar_def)
  have k1: "\<exists>k\<in>set (map fst [(''name'', ''1''), (''MatchOn'', ''2'')]).
              ToLower (keyToLower exampleDecoders) k =
                ToLower (keyToLower exampleDecoders) ''matchOn''"
    using low by simp
  have k2: "\<not> (\<exists>k\<in>set (map fst [(''name'', ''1''), (''matchFeatures'', ''2'')]).
                 ToLower (keyToLower exampleDecoders) k =
                   ToLower (keyToLower exampleDecoders) ''matchOn'')"
    using low by simp
  have d: "decodeLegacy exampleDecoders ''legacy'' = (Some exampleLegacyRule, None)"
    "decodeRule exampleDecoders ''modern'' = (Some exampleRule, None)"
    by (simp_all add: exampleDecoders_def)
  from p1 k1 UnmarshalJSON_selects_dialect [where dec = exampleDecoders and data = "''legacy''"
      and c = emptyCustomRule and raw = "[(''name'', ''1''), (''MatchOn'', ''2'')]"]
  have 1: "UnmarshalJSON exampleDecoders emptyCustomRule ''legacy''
       = (\<lparr>LegacyRule = Some exampleLegacyRule, Rule = None\<rparr>, None)"
    by (simp add: d emptyCustomRule_def)
  from p2 k2 UnmarshalJSON_selects_dialect [where dec = exampleDecoders and data = "''modern''"
      and c = emptyCustomRule and raw = "[(''name'', ''1''), (''matchFeatures'', ''2'')]"]
  have 2: "UnmarshalJSON exampleDecoders emptyCustomRule ''modern''
       = (\<lparr>LegacyRule = None, Rule = Some exampleRule\<rparr>, None)"
    by (simp add: d emptyCustomRule_def)
  from p3 UnmarshalJSON_selects_dialect [where dec = exampleDecoders and data = "''{''"
      and c = emptyCustomRule and err = "External ''syntax error''"]
  have 3: "UnmarshalJSON exampleDecoders emptyCustomRule ''{''
       = (emptyCustomRule, Some (External ''syntax error''))"
    by simp
  from p1 p2 p3 low 1 2 3 show ?thesis by simp
qed

text \<open>
  Claim C8, as stated, fails: encoding a wrapper with neither variant populated does
  not fail. \<open>MarshalJSON\<close> hands the nil modern rule to \<open>json.Marshal\<close>, which encodes
  it as \<open>null\<close> without an error.
\<close>

theorem MarshalJSON_empty_rule_counterexample:
  "LegacyRule emptyCustomRule = None \<and> Rule emptyCustomRule = None
   \<and> MarshalJSON exampleEncLegacy exampleEncRule emptyCustomRule = (''null'', None)"
  by (simp add: MarshalJSON_def jsonMarshalPtr_def emptyCustomRule_def)

text \<open>
  Claim C8, amended. \<open>MarshalJSON\<close> encodes the legacy rule when it is populated and
  the modern rule otherwise; with neither populated the result is \<open>null\<close> and no
  error. It is \<open>CustomRule.execute\<close> that fails for a wrapper with neither variant
  populated; with both populated, both take the legacy rule.
\<close>

theorem MarshalJSON_encodes_populated_variant:
  "MarshalJSON encLegacy encRule c =
     (case LegacyRule c of
        Some lr \<Rightarrow> encLegacy lr
      | None \<Rightarrow> (case Rule c of Some mr \<Rightarrow> encRule mr | None \<Rightarrow> (''null'', None)))
   \<and> CustomRule_execute Match ev \<lparr>LegacyRule = None, Rule = None\<rparr> f = (None, Some EmptyRuleBug)"
proof
  show "MarshalJSON encLegacy encRule c =
     (case LegacyRule c of
        Some lr \<Rightarrow> encLegacy lr
      | None \<Rightarrow> (case Rule c of Some mr \<Rightarrow> encRule mr | None \<Rightarrow> (''null'', None)))"
  proof (cases "LegacyRule c")
    case (Some lr)
    then show ?thesis by (simp add: MarshalJSON_def jsonMarshalPtr_def)
  next
    case None
    then show ?thesis by (cases "Rule c") (simp_all add: MarshalJSON_def jsonMarshalPtr_def)
  qed
  show "CustomRule_execute Match ev \<lparr>LegacyRule = None, Rule = None\<rparr> f = (None, Some EmptyRuleBug)"
    by (simp add: CustomRule_execute_def)
qed

theorem MarshalJSON_encodes_populated_variant_witness:
  "MarshalJSON exampleEncLegacy exampleEncRule legacyCustomRule = (''{}'', None)
   \<and> MarshalJSON exampleEncLegacy exampleEncRule goodCustomRule = (''{}'', None)
   \<and> MarshalJSON exampleEncLegacy exampleEncRule emptyCustomRule = (''null'', None)
   \<and> CustomRule_execute exampleMatch existsEvaluator \<lparr>LegacyRule = None, Rule = None\<rparr>
        exampleFeatures = (None, Some EmptyRuleBug)"
  using MarshalJSON_encodes_populated_variant
      [of exampleEncLegacy exampleEncRule legacyCustomRule exampleMatch existsEvaluator
        exampleFeatures]
    MarshalJSON_encodes_populated_variant
      [of exampleEncLegacy exampleEncRule goodCustomRule exampleMatch existsEvaluator
        exampleFeatures]
    MarshalJSON_encodes_populated_variant
      [of exampleEncLegacy exampleEncRule emptyCustomRule exampleMatch existsEvaluator
        exampleFeatures]
  by (simp add: legacyCustomRule_def goodCustomRule_def emptyCustomRule_def exampleEncLegacy_def
      exampleEncRule_def)

lemma getLabelsLoop_fold:
  "getLabelsLoop Match ev f rules labels logged =
     (foldl (\<lambda>acc rule. case CustomRule_execute Match ev rule f of
                           (_, Some err) \<Rightarrow> acc
                         | (None, None) \<Rightarrow> acc
                         | (Some out, None) \<Rightarrow> acc ++ out) labels rules,
      logged @ List.map_filter (\<lambda>rule. snd (CustomRule_execute Match ev rule f)) rules)"
proof (induction rules arbitrary: labels logged)
  case Nil
  then show ?case by (simp add: List.map_filter_simps)
next
  case (Cons rule rules)
  obtain out e where X: "CustomRule_execute Match ev rule f = (out, e)"
    by (cases "CustomRule_execute Match ev rule f") auto
  show ?case
  proof (cases e)
    case None
    with X Cons.IH show ?thesis by (cases out) (simp_all add: List.map_filter_simps)
  next
    case (Some err)
    with X Cons.IH show ?thesis by (cases out) (simp_all add: List.map_filter_simps)
  qed
qed

lemma fold_skips_failed_rules:
  "foldl (\<lambda>acc rule. case CustomRule_execute Match ev rule f of
                           (_, Some err) \<Rightarrow> acc
                         | (None, None) \<Rightarrow> acc
                         | (Some out, None) \<Rightarrow> acc ++ out) labels
     (filter (\<lambda>rule. snd (CustomRule_execute Match ev rule f) = None) rules)
   = foldl (\<lambda>acc rule. case CustomRule_execute Match ev rule f of
                           (_, Some err) \<Rightarrow> acc
                         | (None, None) \<Rightarrow> acc
                         | (Some out, None) \<Rightarrow> acc ++ out) labels rules"
proof (induction rules arbitrary: labels)
  case Nil
  then show ?case by simp
next
  case (Cons rule rules)
  obtain out e where X: "CustomRule_execute Match ev rule f = (out, e)"
    by (cases "CustomRule_execute Match ev rule f") auto
  show ?case
  proof (cases e)
    case None
    with X Cons.IH show ?thesis by simp
  next
    case (Some err)
    with X Cons.IH show ?thesis by (cases out) simp_all
  qed
qed

text \<open>
  Claim C9. \<open>GetLabels\<close> never returns an error. Its labels are the outputs of the
  rules that execute without error, merged in the order of the rules (static rules, then
  the configured ones, then those of the directory); a rule that fails adds nothing, and
  its error is logged: the logged errors are the errors of the failing rules, in order.
  So the labels are those of the same pass with the failing rules taken out.
\<close>

theorem GetLabels_isolates_failing_rules:
  "fst (snd (GetLabels Match ev f s c d)) = None
   \<and> fst (GetLabels Match ev f s c d) =
       foldl (\<lambda>acc rule. case CustomRule_execute Match ev rule f of
                            (_, Some err) \<Rightarrow> acc
                          | (None, None) \<Rightarrow> acc
                          | (Some out, None) \<Rightarrow> acc ++ out) Map.empty (s @ c @ d)
   \<and> snd (snd (GetLabels Match ev f s c d)) =
       List.map_filter (\<lambda>rule. snd (CustomRule_execute Match ev rule f)) (s @ c @ d)
   \<and> fst (GetLabels Match ev f s c d) =
       fst (GetLabels Match ev f
              (filter (\<lambda>rule. snd (CustomRule_execute Match ev rule f) = None) s)
              (filter (\<lambda>rule. snd (CustomRule_execute Match ev rule f) = None) c)
              (filter (\<lambda>rule. snd (CustomRule_execute Match ev rule f) = None) d))"
proof -
  have G: "GetLabels Match ev f s c d =
      (foldl (\<lambda>acc rule. case CustomRule_execute Match ev rule f of
                            (_, Some err) \<Rightarrow> acc
                          | (None, None) \<Rightarrow> acc
                          | (Some out, None) \<Rightarrow> acc ++ out) Map.empty (s @ c @ d),
       None,
       List.map_filter (\<lambda>rule. snd (CustomRule_execute Match ev rule f)) (s @ c @ d))" for s c d
    by (simp add: GetLabels_def Let_def getLabelsLoop_fold)
  show ?thesis
    using fold_skips_failed_rules [of Match ev f Map.empty "s @ c @ d"]
    by (simp add: G)
qed
lemma example_custom_rules:
  "CustomRule_execute exampleMatch existsEvaluator goodCustomRule exampleFeatures
     = (Some [''label-1'' \<mapsto> ''label-val-1''], None)"
  "CustomRule_execute exampleMatch existsEvaluator badCustomRule exampleFeatures
     = (None, Some (FailedRule ''rule-1'' (UnknownDomain ''domain-x'')))"
  "CustomRule_execute exampleMatch existsEvaluator legacyCustomRule exampleFeatures
     = (Some [''feature-1'' \<mapsto> ''true''], None)"
  "CustomRule_execute exampleMatch existsEvaluator emptyCustomRule exampleFeatures
     = (None, Some EmptyRuleBug)"
  by (simp_all add: CustomRule_execute_def goodCustomRule_def badCustomRule_def
      legacyCustomRule_def emptyCustomRule_def exampleRule_def exampleLegacyRule_def
      execute_unfold executeFrom_def match_single example_terms LegacyRule_execute_def
      legacyLabel_def)

theorem GetLabels_isolates_failing_rules_witness:
  "GetLabels exampleMatch existsEvaluator exampleFeatures
     [badCustomRule] [goodCustomRule, emptyCustomRule] [legacyCustomRule]
   = ([''label-1'' \<mapsto> ''label-val-1'', ''feature-1'' \<mapsto> ''true''], None,
      [FailedRule ''rule-1'' (UnknownDomain ''domain-x''), EmptyRuleBug])"
proof -
  note T = GetLabels_isolates_failing_rules
    [of exampleMatch existsEvaluator exampleFeatures "[badCustomRule]"
      "[goodCustomRule, emptyCustomRule]" "[legacyCustomRule]"]
  have 1: "fst (GetLabels exampleMatch existsEvaluator exampleFeatures
     [badCustomRule] [goodCustomRule, emptyCustomRule] [legacyCustomRule])
     = [''label-1'' \<mapsto> ''label-val-1'', ''feature-1'' \<mapsto> ''true'']"
    using T by (simp add: example_custom_rules)
  have 2: "fst (snd (GetLabels exampleMatch existsEvaluator exampleFeatures
     [badCustomRule] [goodCustomRule, emptyCustomRule] [legacyCustomRule])) = None"
    using T by blast
  have 3: "snd (snd (GetLabels exampleMatch existsEvaluator exampleFeatures
     [badCustomRule] [goodCustomRule, emptyCustomRule] [legacyCustomRule]))
     = [FailedRule ''rule-1'' (UnknownDomain ''domain-x''), EmptyRuleBug]"
    using T by (simp add: example_custom_rules List.map_filter_simps)
  from 1 2 3 show ?thesis by (metis prod.collapse)
qed

end
